theory Spec2Isabelle
  imports Main "HOL-Library.AList"
begin

section \<open>JavaScript values and objects\<close>

text \<open>
  The event pipeline runner (\<^verbatim>\<open>event-pipeline-runner.ts\<close>, class
  \<^verbatim>\<open>EventPipelineRunnerV2\<close>) works on free-form property bags. A JavaScript value is
  modelled by \<open>jsval\<close>; numbers are restricted to integers. An object is the list of
  its own enumerable properties in the order JavaScript enumerates them, every key
  at most once.
\<close>

datatype jsval =
    JUndefined
  | JNull
  | JBool bool
  | JNum int
  | JStr string
  | JArr "jsval list"
  | JObj "(string \<times> jsval) list"

type_synonym obj = "(string \<times> jsval) list"

text \<open>Truthiness, as used by \<^verbatim>\<open>if (x)\<close>, \<^verbatim>\<open>!x\<close>, \<^verbatim>\<open>x || y\<close> and \<^verbatim>\<open>x && y\<close>.\<close>

fun truthy :: "jsval \<Rightarrow> bool" where
  "truthy JUndefined = False"
| "truthy JNull = False"
| "truthy (JBool b) = b"
| "truthy (JNum n) = (n \<noteq> 0)"
| "truthy (JStr s) = (s \<noteq> [])"
| "truthy (JArr xs) = True"
| "truthy (JObj kvs) = True"

text \<open>\<^verbatim>\<open>typeof v === 'boolean'\<close> and \<^verbatim>\<open>typeof v === 'string'\<close>.\<close>

fun is_boolean :: "jsval \<Rightarrow> bool" where
  "is_boolean (JBool b) = True"
| "is_boolean v = False"

fun is_string :: "jsval \<Rightarrow> bool" where
  "is_string (JStr s) = True"
| "is_string v = False"

text \<open>Decimal rendering of a small non-negative integer (an array index, a group type
  index), as a template literal gives it.\<close>

definition digit_char :: "nat \<Rightarrow> char" where
  "digit_char d = char_of (48 + d)"

function show_nat :: "nat \<Rightarrow> string" where
  "show_nat n = (if n < 10 then [digit_char n] else show_nat (n div 10) @ [digit_char (n mod 10)])"
  by pat_completeness auto
termination
  by (relation "measure (\<lambda>n. n)") auto

declare show_nat.simps [simp del]

definition show_int :: "int \<Rightarrow> string" where
  "show_int i = (if i < 0 then CHR ''-'' # show_nat (nat (- i)) else show_nat (nat i))"

text \<open>\<open>join_comma\<close> is \<^verbatim>\<open>Array.prototype.join\<close> with its default separator.\<close>

fun join_comma :: "string list \<Rightarrow> string" where
  "join_comma [] = []"
| "join_comma [s] = s"
| "join_comma (s # t # ss) = s @ '','' @ join_comma (t # ss)"

text \<open>
  Property keys that are array indices (canonical decimal strings below \<open>2^32 - 1\<close>)
  are enumerated first, in ascending order; all other keys follow in insertion order.
\<close>

definition is_digit :: "char \<Rightarrow> bool" where
  "is_digit c = (48 \<le> (of_char c :: nat) \<and> (of_char c :: nat) \<le> 57)"

definition digits_val :: "string \<Rightarrow> nat" where
  "digits_val s = foldl (\<lambda>a c. 10 * a + ((of_char c :: nat) - 48)) 0 s"

definition array_index :: "string \<Rightarrow> nat option" where
  "array_index s =
     (if s = [] then None
      else if \<not> list_all is_digit s then None
      else if hd s = CHR ''0'' \<and> length s \<noteq> 1 then None
      else if digits_val s < 2 ^ 32 - 1 then Some (digits_val s)
      else None)"

text \<open>
  \<open>obj_get o k\<close> is \<^verbatim>\<open>o[k]\<close> for the keys the runner reads, none of which is inherited
  from \<^verbatim>\<open>Object.prototype\<close>. \<open>hasOwnProperty o k\<close> says that \<open>o\<close> has an own property
  \<open>k\<close>; it is what the inherited method \<^verbatim>\<open>Object.prototype.hasOwnProperty\<close> answers.
\<close>

definition obj_get :: "obj \<Rightarrow> string \<Rightarrow> jsval" where
  "obj_get ob k = (case map_of ob k of None \<Rightarrow> JUndefined | Some v \<Rightarrow> v)"

definition hasOwnProperty :: "obj \<Rightarrow> string \<Rightarrow> bool" where
  "hasOwnProperty ob k = (map_of ob k \<noteq> None)"

text \<open>
  \<open>js_String num v\<close> is the string conversion that a template literal, \<^verbatim>\<open>String(v)\<close> and
  \<^verbatim>\<open>v.toString()\<close> apply to \<open>v\<close>; \<open>None\<close> is the \<^verbatim>\<open>TypeError\<close> they raise. An object is
  converted by its \<^verbatim>\<open>toString\<close> method. The inherited one gives \<^verbatim>\<open>[object Object]\<close>; an
  own property \<^verbatim>\<open>toString\<close> shadows it, and since no value here is callable the
  conversion then fails (\<^verbatim>\<open>valueOf\<close>, own or inherited, yields no primitive either). An
  array joins the conversions of its elements, with \<^verbatim>\<open>null\<close> and \<^verbatim>\<open>undefined\<close> as the
  empty string, and fails when one of them fails. A number is rendered by \<open>num\<close>, the
  language's \<^verbatim>\<open>Number.prototype.toString\<close>, which is taken as given (decimal digits for
  small integers, exponent notation from \<^verbatim>\<open>1e21\<close> on).
\<close>

fun js_String :: "(int \<Rightarrow> string) \<Rightarrow> jsval \<Rightarrow> string option" where
  "js_String num JUndefined = Some ''undefined''"
| "js_String num JNull = Some ''null''"
| "js_String num (JBool b) = Some (if b then ''true'' else ''false'')"
| "js_String num (JNum n) = Some (num n)"
| "js_String num (JStr s) = Some s"
| "js_String num (JArr xs) =
     map_option join_comma
       (those (map (\<lambda>x. if x = JUndefined \<or> x = JNull then Some [] else js_String num x) xs))"
| "js_String num (JObj kvs) =
     (if hasOwnProperty kvs ''toString'' then None else Some ''[object Object]'')"

text \<open>\<open>obj_delete k o\<close> is \<^verbatim>\<open>delete o[k]\<close>.\<close>

definition obj_delete :: "string \<Rightarrow> obj \<Rightarrow> obj" where
  "obj_delete k ob = AList.delete k ob"

text \<open>
  \<open>obj_set k v o\<close> is \<^verbatim>\<open>o[k] = v\<close>: an existing key keeps its place; a new key is
  placed where JavaScript's property order puts it.
\<close>

fun insert_index :: "nat \<Rightarrow> string \<Rightarrow> jsval \<Rightarrow> obj \<Rightarrow> obj" where
  "insert_index n k v [] = [(k, v)]"
| "insert_index n k v (p # ps) =
     (case array_index (fst p) of
        None \<Rightarrow> (k, v) # p # ps
      | Some m \<Rightarrow> if m < n then p # insert_index n k v ps else (k, v) # p # ps)"

definition obj_set :: "string \<Rightarrow> jsval \<Rightarrow> obj \<Rightarrow> obj" where
  "obj_set k v ob =
     (if hasOwnProperty ob k then AList.update k v ob
      else case array_index k of
             None \<Rightarrow> ob @ [(k, v)]
           | Some n \<Rightarrow> insert_index n k v ob)"

text \<open>
  The own enumerable properties a spread \<^verbatim>\<open>{...v}\<close> or \<^verbatim>\<open>Object.entries(v)\<close> reads
  from a value: those of an object, the indexed elements of an array, the indexed
  characters of a string, and none for the other primitives.
\<close>

fun indexed :: "nat \<Rightarrow> jsval list \<Rightarrow> obj" where
  "indexed i [] = []"
| "indexed i (x # xs) = (show_nat i, x) # indexed (Suc i) xs"

fun own_entries :: "jsval \<Rightarrow> obj" where
  "own_entries (JObj kvs) = kvs"
| "own_entries (JArr xs) = indexed 0 xs"
| "own_entries (JStr s) = indexed 0 (map (\<lambda>c. JStr [c]) s)"
| "own_entries v = []"

text \<open>\<open>obj_assign target src\<close> copies the properties of \<open>src\<close> onto \<open>target\<close> in order,
  so \<^verbatim>\<open>{...a, ...b}\<close> is \<open>obj_assign (obj_assign [] a) b\<close>.\<close>

definition obj_assign :: "obj \<Rightarrow> obj \<Rightarrow> obj" where
  "obj_assign target src = fold (\<lambda>(k, v) acc. obj_set k v acc) src target"

section \<open>Data model\<close>

type_synonym DateTime = int

datatype TimestampFormat = ClickHouse | ClickHouseSecondPrecision

datatype PersonMode = full | force_upgrade | propertyless

text \<open>
  \<^verbatim>\<open>PipelineEvent\<close>, the raw input: \<open>token\<close> and \<open>team_id\<close> may be absent, and so may the
  property bag. \<open>pe_rest\<close> holds the top-level fields the runner never reads
  (\<^verbatim>\<open>timestamp\<close>, \<^verbatim>\<open>sent_at\<close>, \<^verbatim>\<open>offset\<close>, \<^verbatim>\<open>$set\<close>, ...).
\<close>

record PipelineEvent =
  pe_token :: "string option"
  pe_team_id :: "int option"
  pe_uuid :: jsval
  pe_event :: string
  pe_distinct_id :: string
  pe_properties :: "obj option"
  pe_rest :: obj

text \<open>\<^verbatim>\<open>PluginEvent\<close>, the runner's working copy \<^verbatim>\<open>this.event\<close>.\<close>

record PluginEvent =
  ev_token :: "string option"
  ev_team_id :: int
  ev_uuid :: jsval
  ev_event :: string
  ev_distinct_id :: string
  ev_properties :: obj
  ev_rest :: obj

record Team =
  t_id :: int
  t_project_id :: int
  anonymize_ips :: bool
  heatmaps_opt_in :: "bool option"
  person_processing_opt_out :: "bool option"

record Person =
  p_uuid :: string
  p_properties :: obj
  p_created_at :: DateTime
  p_force_upgrade :: bool

text \<open>\<^verbatim>\<open>RawKafkaEvent\<close>, the enriched record built by \<^verbatim>\<open>createKafkaEvent\<close>.\<close>

record RawKafkaEvent =
  ke_uuid :: jsval
  ke_event :: string
  ke_properties :: string
  ke_timestamp :: string
  ke_team_id :: int
  ke_project_id :: int
  ke_distinct_id :: string
  elements_chain :: string
  created_at :: string
  person_id :: string
  person_properties :: string
  person_created_at :: string
  person_mode :: PersonMode

definition PersonMode_js :: "PersonMode \<Rightarrow> jsval" where
  "PersonMode_js m =
     (case m of full \<Rightarrow> JStr ''full''
      | force_upgrade \<Rightarrow> JStr ''force_upgrade''
      | propertyless \<Rightarrow> JStr ''propertyless'')"

text \<open>The enriched record as the object handed to \<^verbatim>\<open>JSON.stringify(event)\<close>.\<close>

definition RawKafkaEvent_js :: "RawKafkaEvent \<Rightarrow> jsval" where
  "RawKafkaEvent_js e = JObj
     [(''uuid'', ke_uuid e),
      (''event'', JStr (ke_event e)),
      (''properties'', JStr (ke_properties e)),
      (''timestamp'', JStr (ke_timestamp e)),
      (''team_id'', JNum (ke_team_id e)),
      (''project_id'', JNum (ke_project_id e)),
      (''distinct_id'', JStr (ke_distinct_id e)),
      (''elements_chain'', JStr (elements_chain e)),
      (''created_at'', JStr (created_at e)),
      (''person_id'', JStr (person_id e)),
      (''person_properties'', JStr (person_properties e)),
      (''person_created_at'', JStr (person_created_at e)),
      (''person_mode'', PersonMode_js (person_mode e))]"

subsection \<open>Errors\<close>

text \<open>
  \<^verbatim>\<open>EventDroppedError\<close> and its constructor: the message defaults to the warning code
  and \<^verbatim>\<open>doNotSendToDLQ\<close> to false. \<open>TypeError\<close> is what dereferencing an unset
  \<^verbatim>\<open>this.team!\<close> or \<^verbatim>\<open>this.person!\<close> raises.
\<close>

record EventDroppedError =
  ingestionWarning :: string
  message :: string
  doNotSendToDLQ :: bool
  ingestionWarningDetails :: "obj option"

definition new_EventDroppedError ::
  "string \<Rightarrow> bool option \<Rightarrow> string option \<Rightarrow> obj option \<Rightarrow> EventDroppedError" where
  "new_EventDroppedError w dlq msg details =
     \<lparr>ingestionWarning = w,
      message = (case msg of None \<Rightarrow> w | Some m \<Rightarrow> m),
      doNotSendToDLQ = (case dlq of None \<Rightarrow> False | Some b \<Rightarrow> b),
      ingestionWarningDetails = details\<rparr>"

datatype error = EventDropped EventDroppedError | TypeError

datatype 'a outcome = Threw error | Returned 'a

subsection \<open>Kafka requests and the promises the runner collects\<close>

text \<open>
  A topic is identified by the configuration entry the code reads it from. A promise
  pushed onto \<^verbatim>\<open>this.promises\<close> is the producer request together with the
  \<^verbatim>\<open>.catch\<close> callback attached to it; \<open>KafkaAck\<close> is the acknowledgement returned by
  person processing and \<open>SetTeamIngestedEvent\<close> the first-event tracking call.
\<close>

datatype topic =
    KAFKA_INGESTION_WARNINGS
  | CLICKHOUSE_HEATMAPS_KAFKA_TOPIC
  | CLICKHOUSE_JSON_EVENTS_KAFKA_TOPIC
  | EXCEPTIONS_SYMBOLIFICATION_KAFKA_TOPIC

datatype kafka_request =
    Produce topic jsval string
  | QueueMessages topic "string list"

datatype producer_error = MessageSizeTooLarge | OtherProducerError string

datatype catch_handler =
    NoCatch
  | CatchLogWarning
  | CatchLogRethrow
  | CatchMessageSizeTooLarge RawKafkaEvent

datatype promise =
    KafkaPromise kafka_request catch_handler
  | KafkaAck
  | SetTeamIngestedEvent "Team option" obj

text \<open>
  How a collected promise settles. \<open>Resolved qs ds\<close>: it resolves; \<open>qs\<close> are the requests
  its \<^verbatim>\<open>.catch\<close> callback issued and \<open>ds\<close> the \<^verbatim>\<open>drop_cause\<close> labels the callback added to
  \<^verbatim>\<open>eventDroppedCounter\<close>. \<open>Rejected e\<close>: it rejects with \<open>e\<close>.
\<close>

datatype settlement = Resolved "kafka_request list" "string list" | Rejected producer_error

fun request_topic :: "kafka_request \<Rightarrow> topic" where
  "request_topic (Produce t k v) = t"
| "request_topic (QueueMessages t ms) = t"

text \<open>\<open>produces_to t p\<close>: the promise \<open>p\<close> is a \<^verbatim>\<open>produce\<close> call on topic \<open>t\<close>.\<close>

fun produces_to :: "topic \<Rightarrow> promise \<Rightarrow> bool" where
  "produces_to t (KafkaPromise (Produce t' k v) c) = (t' = t)"
| "produces_to t p = False"

subsection \<open>Collaborators\<close>

text \<open>
  Everything the runner imports or reaches through the hub is taken as a parameter.
  A collaborator that is handed \<^verbatim>\<open>this.event\<close> or its property bag returns that object
  as it leaves it next to its result, so mutation in place is covered. \<open>None\<close> as the
  result of \<open>utils_processAiEvent\<close>, \<open>extractHeatmapData\<close> or \<open>getElementsChain\<close>
  stands for a thrown exception (the runner catches all three); the inner option of
  \<open>extractHeatmapData\<close> is a \<^verbatim>\<open>null\<close> result, and the sub-events it returns are
  objects (\<^verbatim>\<open>RawClickhouseHeatmapEvent[]\<close>). \<open>MAX_GROUP_TYPES_PER_TEAM\<close> is the
  imported constant, \<open>JSON_stringify\<close> the language's \<^verbatim>\<open>JSON.stringify\<close> and
  \<open>Number_toString\<close> its \<^verbatim>\<open>Number.prototype.toString\<close>. \<open>person_keys\<close> stands for the
  imported \<^verbatim>\<open>normalizeProcessPerson\<close>, see below.
  The calls a run awaits are recorded in order as \<open>call\<close>s.

  Apart from these three and the producer's rejections (see \<open>settle\<close> below), a
  collaborator is taken to return: an exception escaping from a team lookup, a
  transformation or a store write would leave \<^verbatim>\<open>run\<close> unchanged and is not a branch here.
  Logging (\<^verbatim>\<open>status.warn\<close>, \<^verbatim>\<open>captureException\<close>) has no counterpart either.
\<close>

datatype call =
    FetchTeam int
  | GetTeamByToken string
  | CookielessProcessEvent
  | TransformEventAndProduceMessages
  | PersonStateUpdate
  | FetchGroupTypeIndex jsval
  | UpsertGroup nat string

record env =
  fetchTeam :: "int \<Rightarrow> Team option"
  getTeamByToken :: "string \<Rightarrow> Team option"
  sanitizeString :: "string \<Rightarrow> string"
  UUID_validateString :: "jsval \<Rightarrow> bool"
  eventsToSkipPersonsProcessingByToken :: "string option \<Rightarrow> string list option"
  person_keys :: "PluginEvent \<Rightarrow> bool \<Rightarrow> obj \<times> obj"
  sanitizeEventName :: "string \<Rightarrow> string"
  utils_normalizeEvent :: "PluginEvent \<Rightarrow> PluginEvent"
  parseEventTimestamp :: "PluginEvent \<Rightarrow> PluginEvent \<times> DateTime"
  cookielessManager_processEvent :: "PluginEvent \<Rightarrow> PluginEvent \<times> PluginEvent option"
  transformEventAndProduceMessages :: "PluginEvent \<Rightarrow> PluginEvent \<times> PluginEvent option"
  utils_processAiEvent :: "PluginEvent \<Rightarrow> PluginEvent \<times> PluginEvent option"
  PersonState_update ::
    "PluginEvent \<Rightarrow> int \<Rightarrow> string \<Rightarrow> DateTime option \<Rightarrow> bool \<Rightarrow> PluginEvent \<times> Person"
  fetchGroupTypeIndex :: "int \<Rightarrow> int \<Rightarrow> jsval \<Rightarrow> nat option"
  extractHeatmapData :: "PluginEvent \<Rightarrow> PluginEvent \<times> obj list option option"
  getElementsChain :: "obj \<Rightarrow> obj \<times> string option"
  safeClickhouseString :: "string \<Rightarrow> string"
  castTimestampOrNow :: "DateTime option \<Rightarrow> TimestampFormat \<Rightarrow> string"
  JSON_stringify :: "jsval \<Rightarrow> string"
  Number_toString :: "int \<Rightarrow> string"
  MAX_GROUP_TYPES_PER_TEAM :: nat

text \<open>
  Modelled from the spec: \<^verbatim>\<open>normalizeProcessPerson(event, processPerson)\<close> of
  \<^verbatim>\<open>utils/event-utils\<close>, which is not among the sources. By the spec (section 4.4) it
  removes person-related keys (\<^verbatim>\<open>$set\<close>, \<^verbatim>\<open>$set_once\<close>, \<^verbatim>\<open>$unset\<close>, ...) from the event's
  properties when person processing is disabled. So it returns the event it was given
  with the property bag replaced, and with it the top-level fields the runner never
  reads (where \<^verbatim>\<open>$set\<close> and \<^verbatim>\<open>$set_once\<close> may also sit); the name, uuid, distinct id,
  token and team id stay as they are. Which keys it removes, and what it does when
  person processing is enabled, is left to the parameter \<open>person_keys\<close>, which is handed
  the event and answers the new property bag and the new top-level fields. (The spec
  also lists the \<^verbatim>\<open>$group_\<close> keys; \<^verbatim>\<open>createKafkaEvent\<close> still deletes those itself.)
\<close>

definition normalizeProcessPerson :: "env \<Rightarrow> PluginEvent \<Rightarrow> bool \<Rightarrow> PluginEvent" where
  "normalizeProcessPerson h ev processPerson =
     ev\<lparr>ev_properties := fst (person_keys h ev processPerson),
        ev_rest := snd (person_keys h ev processPerson)\<rparr>"

section \<open>The runner\<close>

text \<open>
  The fields of \<^verbatim>\<open>EventPipelineRunnerV2\<close>. \<open>dropped\<close> lists the \<^verbatim>\<open>drop_cause\<close> labels
  this run added to \<^verbatim>\<open>eventDroppedCounter\<close>, \<open>transformDropped\<close> counts its increments
  of \<^verbatim>\<open>droppedEventFromTransformationsCounter\<close>, and \<open>calls\<close> is the record of awaited
  collaborator calls.
\<close>

record runner =
  team :: "Team option"
  promises :: "promise list"
  event :: PluginEvent
  shouldProcessPerson :: bool
  timestamp :: "DateTime option"
  person :: "Person option"
  originalEvent :: PipelineEvent
  dropped :: "string list"
  transformDropped :: nat
  calls :: "call list"

text \<open>The constructor.\<close>

definition new_runner :: "PipelineEvent \<Rightarrow> runner" where
  "new_runner oe =
     \<lparr>team = None,
      promises = [],
      event =
        \<lparr>ev_token = pe_token oe,
         ev_team_id = (case pe_team_id oe of None \<Rightarrow> - 1 | Some t \<Rightarrow> t),
         ev_uuid = pe_uuid oe,
         ev_event = pe_event oe,
         ev_distinct_id = pe_distinct_id oe,
         ev_properties = (case pe_properties oe of None \<Rightarrow> [] | Some ps \<Rightarrow> ps),
         ev_rest = pe_rest oe\<rparr>,
      shouldProcessPerson = True,
      timestamp = None,
      person = None,
      originalEvent = oe,
      dropped = [],
      transformDropped = 0,
      calls = []\<rparr>"

definition set_properties :: "obj \<Rightarrow> runner \<Rightarrow> runner" where
  "set_properties ps r = r\<lparr>event := (event r)\<lparr>ev_properties := ps\<rparr>\<rparr>"

text \<open>\<^verbatim>\<open>JSON.stringify(v)\<close> as a value: \<^verbatim>\<open>undefined\<close> for \<^verbatim>\<open>undefined\<close>, a string otherwise.\<close>

definition stringify_value :: "env \<Rightarrow> jsval \<Rightarrow> jsval" where
  "stringify_value h v = (if v = JUndefined then JUndefined else JStr (JSON_stringify h v))"

text \<open>The record written to the ingestion-warnings topic.\<close>

definition warning_message :: "env \<Rightarrow> jsval \<Rightarrow> string \<Rightarrow> obj \<Rightarrow> string" where
  "warning_message h team_id warning details =
     JSON_stringify h (JObj
       [(''team_id'', team_id),
        (''type'', JStr warning),
        (''source'', JStr ''plugin-server''),
        (''details'', JStr (JSON_stringify h (JObj details))),
        (''timestamp'', JStr (castTimestampOrNow h None ClickHouse))])"

definition captureIngestionWarning :: "env \<Rightarrow> string \<Rightarrow> obj \<Rightarrow> runner \<Rightarrow> runner" where
  "captureIngestionWarning h warning details0 r =
     (let details = obj_assign
            [(''eventUuid'',
                if \<not> is_string (ev_uuid (event r)) then stringify_value h (ev_uuid (event r))
                else ev_uuid (event r)),
             (''event'', JStr (ev_event (event r))),
             (''distinctId'', JStr (ev_distinct_id (event r)))]
            details0
      in r\<lparr>promises := promises r @
            [KafkaPromise
               (QueueMessages KAFKA_INGESTION_WARNINGS
                  [warning_message h
                     (case team r of None \<Rightarrow> JUndefined | Some t \<Rightarrow> JNum (t_id t))
                     warning details])
               CatchLogWarning]\<rparr>)"

definition dropEvent :: "string \<Rightarrow> runner \<Rightarrow> runner" where
  "dropEvent dropCause r = r\<lparr>dropped := dropped r @ [dropCause]\<rparr>"

definition getTeam :: "env \<Rightarrow> runner \<Rightarrow> Team option \<times> runner" where
  "getTeam h r =
     (case pe_team_id (originalEvent r) of
        Some team_id \<Rightarrow>
          if team_id \<noteq> 0
          then (fetchTeam h team_id, r\<lparr>calls := calls r @ [FetchTeam team_id]\<rparr>)
          else (case pe_token (originalEvent r) of
                  Some token \<Rightarrow>
                    if token \<noteq> []
                    then (getTeamByToken h (sanitizeString h token),
                          r\<lparr>calls := calls r @ [GetTeamByToken (sanitizeString h token)]\<rparr>)
                    else (None, r)
                | None \<Rightarrow> (None, r))
      | None \<Rightarrow>
          (case pe_token (originalEvent r) of
             Some token \<Rightarrow>
               if token \<noteq> []
               then (getTeamByToken h (sanitizeString h token),
                     r\<lparr>calls := calls r @ [GetTeamByToken (sanitizeString h token)]\<rparr>)
               else (None, r)
           | None \<Rightarrow> (None, r)))"

text \<open>
  \<^verbatim>\<open>validateUuid\<close>: \<open>None\<close> when it returns, the error it throws otherwise. The message
  is built from the uuid by a template literal before the \<^verbatim>\<open>EventDroppedError\<close> is
  constructed; when that conversion fails, its \<^verbatim>\<open>TypeError\<close> is what is thrown.
\<close>

definition validateUuid :: "env \<Rightarrow> runner \<Rightarrow> error option" where
  "validateUuid h r =
     (if \<not> UUID_validateString h (ev_uuid (event r))
      then (case js_String (Number_toString h) (ev_uuid (event r)) of
              None \<Rightarrow> Some TypeError
            | Some s \<Rightarrow>
                Some (EventDropped (new_EventDroppedError ''invalid_event_uuid'' None
                  (Some (''Not a valid UUID: '' @ [CHR 0x22] @ s @ [CHR 0x22])) None)))
      else None)"

definition set_process_person_profile_false :: "PluginEvent \<Rightarrow> PluginEvent" where
  "set_process_person_profile_false ev =
     ev\<lparr>ev_properties := obj_set ''$process_person_profile'' (JBool False) (ev_properties ev)\<rparr>"

definition validatePersonProcessing :: "env \<Rightarrow> runner \<Rightarrow> unit outcome \<times> runner" where
  "validatePersonProcessing h r =
     (case team r of
        None \<Rightarrow> (Threw TypeError, r)
      | Some tm \<Rightarrow>
         (let ev1 = (if person_processing_opt_out tm = Some True
                     then set_process_person_profile_false (event r) else event r);
              skipPersonsProcessingForDistinctIds =
                eventsToSkipPersonsProcessingByToken h (pe_token (originalEvent r));
              ev2 = (case skipPersonsProcessingForDistinctIds of
                       None \<Rightarrow> ev1
                     | Some ids \<Rightarrow>
                         if ev_distinct_id ev1 \<in> set ids
                         then set_process_person_profile_false ev1 else ev1);
              processPersonProfile = obj_get (ev_properties ev2) ''$process_person_profile''
          in if processPersonProfile = JBool False then
               (if ev_event ev2 \<in>
                     set [''$identify'', ''$create_alias'', ''$merge_dangerously'', ''$groupidentify'']
                then (Threw (EventDropped (new_EventDroppedError
                         ''invalid_event_when_process_person_profile_is_false'' (Some True)
                         (Some (''Invalid event when process_person_profile is false: ''
                                  @ [CHR 0x22] @ ev_event ev2 @ [CHR 0x22]))
                         None)),
                      r\<lparr>event := ev2\<rparr>)
                else (Returned (),
                      r\<lparr>event := normalizeProcessPerson h ev2 False, shouldProcessPerson := False\<rparr>))
             else if processPersonProfile \<noteq> JUndefined \<and> \<not> is_boolean processPersonProfile then
               (Returned (),
                captureIngestionWarning h ''invalid_process_person_profile''
                  [(''$process_person_profile'', processPersonProfile)] (r\<lparr>event := ev2\<rparr>))
             else (Returned (), r\<lparr>event := ev2\<rparr>)))"

text \<open>The method \<^verbatim>\<open>normalizeEvent\<close>.\<close>

definition normalizeEvent :: "env \<Rightarrow> runner \<Rightarrow> runner" where
  "normalizeEvent h r =
     (let ev1 = (event r)\<lparr>ev_event := sanitizeEventName h (ev_event (event r))\<rparr>;
          ev2 = utils_normalizeEvent h ev1;
          ev3 = normalizeProcessPerson h ev2 (shouldProcessPerson r);
          (ev4, ts) = parseEventTimestamp h ev3
      in r\<lparr>event := ev4, timestamp := Some ts\<rparr>)"

definition processAiEvent :: "env \<Rightarrow> runner \<Rightarrow> runner" where
  "processAiEvent h r =
     (if ev_event (event r) = ''$ai_generation'' \<or> ev_event (event r) = ''$ai_embedding''
      then (case utils_processAiEvent h (event r) of
              (ev', Some res) \<Rightarrow> r\<lparr>event := res\<rparr>
            | (ev', None) \<Rightarrow> r\<lparr>event := ev'\<rparr>)
      else r)"

definition trackFirstEventIngestion :: "runner \<Rightarrow> runner" where
  "trackFirstEventIngestion r =
     r\<lparr>promises := promises r @ [SetTeamIngestedEvent (team r) (ev_properties (event r))]\<rparr>"

definition processPerson :: "env \<Rightarrow> runner \<Rightarrow> runner" where
  "processPerson h r =
     (let (ev', p) = PersonState_update h (event r) (ev_team_id (event r))
                       (ev_distinct_id (event r)) (timestamp r) (shouldProcessPerson r)
      in r\<lparr>event := ev', person := Some p, promises := promises r @ [KafkaAck],
            calls := calls r @ [PersonStateUpdate]\<rparr>)"

text \<open>
  \<^verbatim>\<open>processGroups\<close>. \<open>groups_loop\<close> is its \<^verbatim>\<open>for ... of Object.entries(...)\<close> loop; the
  entries are read once, before the first iteration. \<^verbatim>\<open>groupKey.toString()\<close> is evaluated
  after the group type index has been fetched and throws when the conversion fails.
\<close>

fun groups_loop :: "env \<Rightarrow> Team \<Rightarrow> obj \<Rightarrow> runner \<Rightarrow> runner" where
  "groups_loop h tm [] r = r"
| "groups_loop h tm ((groupType, groupIdentifier) # es) r =
     (let columnIndex = fetchGroupTypeIndex h (t_id tm) (t_project_id tm) (JStr groupType);
          r1 = r\<lparr>calls := calls r @ [FetchGroupTypeIndex (JStr groupType)]\<rparr>
      in groups_loop h tm es
           (case columnIndex of
              None \<Rightarrow> r1
            | Some i \<Rightarrow>
                set_properties
                  (obj_set (''$group_'' @ show_nat i) groupIdentifier (ev_properties (event r1))) r1))"

definition processGroups :: "env \<Rightarrow> runner \<Rightarrow> unit outcome \<times> runner" where
  "processGroups h r =
     (if \<not> shouldProcessPerson r then (Returned (), r)
      else
        (let groups = obj_get (ev_properties (event r)) ''$groups'';
             entries = own_entries (if truthy groups then groups else JObj [])
         in case team r of
              None \<Rightarrow>
                if entries = [] then
                  (if ev_event (event r) = ''$groupidentify''
                      \<and> truthy (obj_get (ev_properties (event r)) ''$group_type'')
                      \<and> truthy (obj_get (ev_properties (event r)) ''$group_key'')
                   then (Threw TypeError, r) else (Returned (), r))
                else (Threw TypeError, r)
            | Some tm \<Rightarrow>
                (let r1 = groups_loop h tm entries r;
                     groupType = obj_get (ev_properties (event r1)) ''$group_type'';
                     groupKey = obj_get (ev_properties (event r1)) ''$group_key''
                 in if ev_event (event r1) = ''$groupidentify''
                       \<and> truthy groupType \<and> truthy groupKey
                    then
                      (let groupTypeIndex =
                             fetchGroupTypeIndex h (t_id tm) (t_project_id tm) groupType;
                           r2 = r1\<lparr>calls := calls r1 @ [FetchGroupTypeIndex groupType]\<rparr>
                       in case groupTypeIndex of
                            None \<Rightarrow> (Returned (), r2)
                          | Some i \<Rightarrow>
                              (case js_String (Number_toString h) groupKey of
                                 None \<Rightarrow> (Threw TypeError, r2)
                               | Some key \<Rightarrow>
                                   (Returned (), r2\<lparr>calls := calls r2 @ [UpsertGroup i key]\<rparr>)))
                    else (Returned (), r1))))"

text \<open>
  \<^verbatim>\<open>processHeatmaps\<close>. \<open>heatmap_promise\<close> is the \<^verbatim>\<open>produce\<close> call of its \<^verbatim>\<open>map\<close> callback;
  a sub-event is an object, so \<^verbatim>\<open>JSON.stringify\<close> gives a string and \<^verbatim>\<open>Buffer.from\<close>
  returns.
\<close>

definition heatmap_promise :: "env \<Rightarrow> jsval \<Rightarrow> obj \<Rightarrow> promise" where
  "heatmap_promise h uuid rawEvent =
     KafkaPromise
       (Produce CLICKHOUSE_HEATMAPS_KAFKA_TOPIC uuid (JSON_stringify h (JObj rawEvent))) NoCatch"

definition processHeatmaps :: "env \<Rightarrow> runner \<Rightarrow> runner" where
  "processHeatmaps h r =
     (let r1 =
        (if (case team r of None \<Rightarrow> True | Some t \<Rightarrow> heatmaps_opt_in t \<noteq> Some False)
         then
           (case extractHeatmapData h (event r) of
              (ev', None) \<Rightarrow>
                captureIngestionWarning h ''invalid_heatmap_data'' [(''eventUuid'', ev_uuid ev')]
                  (r\<lparr>event := ev'\<rparr>)
            | (ev', Some res) \<Rightarrow>
                (let heatmapEvents = (case res of None \<Rightarrow> [] | Some l \<Rightarrow> l)
                 in r\<lparr>event := ev',
                       promises := promises r @ map (heatmap_promise h (ev_uuid ev')) heatmapEvents\<rparr>))
         else r)
      in set_properties (obj_delete ''$heatmap_data'' (ev_properties (event r1))) r1)"

text \<open>The loop of \<^verbatim>\<open>createKafkaEvent\<close> that deletes \<^verbatim>\<open>$group_0\<close>, \<^verbatim>\<open>$group_1\<close>, ...\<close>

definition delete_group_keys :: "nat \<Rightarrow> obj \<Rightarrow> obj" where
  "delete_group_keys n ps =
     fold (\<lambda>groupTypeIndex acc. obj_delete (''$group_'' @ show_nat groupTypeIndex) acc) [0..<n] ps"

text \<open>What \<^verbatim>\<open>...(this.event.properties?.$set || {})\<close> spreads: the own properties of
  \<^verbatim>\<open>$set\<close> when it is truthy, nothing otherwise.\<close>

definition dollar_set_entries :: "obj \<Rightarrow> obj" where
  "dollar_set_entries props =
     own_entries (if truthy (obj_get props ''$set'') then obj_get props ''$set'' else JObj [])"

definition createKafkaEvent :: "env \<Rightarrow> runner \<Rightarrow> RawKafkaEvent outcome \<times> runner" where
  "createKafkaEvent h r =
     (let props0 = ev_properties (event r);
          ip = obj_get props0 ''$ip''
      in case team r of
           None \<Rightarrow>
             if truthy ip then (Threw TypeError, r)
             else
               (let (props2, chain) = getElementsChain h props0
                in if chain = None then (Threw TypeError, set_properties props2 r)
                   else if shouldProcessPerson r then (Threw TypeError, set_properties props2 r)
                   else (Threw TypeError,
                         set_properties (delete_group_keys (MAX_GROUP_TYPES_PER_TEAM h) props2) r))
         | Some tm \<Rightarrow>
             (let props1 = (if truthy ip \<and> anonymize_ips tm then obj_delete ''$ip'' props0 else props0);
                  (props2, chain) = getElementsChain h props1;
                  elementsChain = (case chain of None \<Rightarrow> [] | Some c \<Rightarrow> c);
                  props3 = (if shouldProcessPerson r then props2
                            else delete_group_keys (MAX_GROUP_TYPES_PER_TEAM h) props2);
                  r3 = set_properties props3 r
              in case person r of
                   None \<Rightarrow> (Threw TypeError, r3)
                 | Some p \<Rightarrow>
                     (let eventPersonProperties =
                            (if shouldProcessPerson r
                             then JSON_stringify h (JObj
                                    (obj_assign (obj_assign [] (p_properties p))
                                       (dollar_set_entries props2)))
                             else ''{}'');
                          personMode =
                            (if p_force_upgrade p then force_upgrade
                             else if \<not> shouldProcessPerson r then propertyless
                             else full)
                      in (Returned
                            \<lparr>ke_uuid = ev_uuid (event r3),
                             ke_event = safeClickhouseString h (ev_event (event r3)),
                             ke_properties = JSON_stringify h (JObj (ev_properties (event r3))),
                             ke_timestamp = castTimestampOrNow h (timestamp r3) ClickHouse,
                             ke_team_id = t_id tm,
                             ke_project_id = t_project_id tm,
                             ke_distinct_id = safeClickhouseString h (ev_distinct_id (event r3)),
                             elements_chain = safeClickhouseString h elementsChain,
                             created_at = castTimestampOrNow h None ClickHouse,
                             person_id = p_uuid p,
                             person_properties = eventPersonProperties,
                             person_created_at =
                               castTimestampOrNow h (Some (p_created_at p)) ClickHouseSecondPrecision,
                             person_mode = personMode\<rparr>,
                          r3))))"

definition produceExceptionSymbolificationEventStep :: "env \<Rightarrow> RawKafkaEvent \<Rightarrow> runner \<Rightarrow> runner" where
  "produceExceptionSymbolificationEventStep h ke r =
     r\<lparr>promises := promises r @
        [KafkaPromise
           (Produce EXCEPTIONS_SYMBOLIFICATION_KAFKA_TOPIC (ke_uuid ke)
              (JSON_stringify h (RawKafkaEvent_js ke)))
           CatchLogRethrow]\<rparr>"

definition produceEventToKafka :: "env \<Rightarrow> RawKafkaEvent \<Rightarrow> runner \<Rightarrow> runner" where
  "produceEventToKafka h ke r =
     r\<lparr>promises := promises r @
        [KafkaPromise
           (Produce CLICKHOUSE_JSON_EVENTS_KAFKA_TOPIC (ke_uuid ke)
              (JSON_stringify h (RawKafkaEvent_js ke)))
           (CatchMessageSizeTooLarge ke)]\<rparr>"

text \<open>
  Modelled from the spec: the shared helper \<^verbatim>\<open>captureIngestionWarning(producer, team_id,
  type, details)\<close> of \<^verbatim>\<open>utils/ingestion-warnings\<close>, which is not among the sources. By
  the spec it queues one record \<^verbatim>\<open>{team_id, type, source: "plugin-server", details
  (JSON string), timestamp}\<close> on the ingestion-warnings topic, fire-and-forget.
\<close>

definition shared_captureIngestionWarning :: "env \<Rightarrow> int \<Rightarrow> string \<Rightarrow> obj \<Rightarrow> kafka_request" where
  "shared_captureIngestionWarning h team_id warning details =
     QueueMessages KAFKA_INGESTION_WARNINGS [warning_message h (JNum team_id) warning details]"

text \<open>
  The \<^verbatim>\<open>.catch\<close> callbacks: what becomes of a promise whose producer call was rejected
  with \<open>e\<close>. None of them calls \<^verbatim>\<open>dropEvent\<close>.
\<close>

fun on_rejected :: "env \<Rightarrow> catch_handler \<Rightarrow> producer_error \<Rightarrow> settlement" where
  "on_rejected h NoCatch e = Rejected e"
| "on_rejected h CatchLogWarning e = Resolved [] []"
| "on_rejected h CatchLogRethrow e = Rejected e"
| "on_rejected h (CatchMessageSizeTooLarge ke) e =
     (if e = MessageSizeTooLarge
      then Resolved
             [shared_captureIngestionWarning h (ke_team_id ke) ''message_size_too_large''
                [(''eventUuid'', ke_uuid ke), (''distinctId'', JStr (ke_distinct_id ke))]]
             []
      else Rejected e)"

text \<open>How a collected promise settles when the producer answers its request with
  \<open>res\<close> (\<open>None\<close>: delivered).\<close>

definition settle :: "env \<Rightarrow> catch_handler \<Rightarrow> producer_error option \<Rightarrow> settlement" where
  "settle h c res = (case res of None \<Rightarrow> Resolved [] [] | Some e \<Rightarrow> on_rejected h c e)"

text \<open>
  \<^verbatim>\<open>_run\<close>, in three parts. \<open>run_enrich\<close> is the main path from the cookieless step
  up to and including \<^verbatim>\<open>const kafkaEvent = this.createKafkaEvent()\<close>;
  \<open>run_to_assembly\<close> is the method from its start up to the same point: team
  resolution, the early exits and the validations, then \<open>run_enrich\<close>. In both,
  \<open>Returned None\<close> is one of the early returns and \<open>Returned (Some ke)\<close> means the
  enriched record \<open>ke\<close> was assembled. \<open>run_inner\<close> is the whole method: it adds the
  routing of that record to a topic. The routing test
  \<^verbatim>\<open>this.event.properties?.hasOwnProperty('$sentry_event_id')\<close> is evaluated only for an
  event named \<^verbatim>\<open>$exception\<close>, and it is a method call on the property bag itself: when
  the bag has an own property named \<^verbatim>\<open>hasOwnProperty\<close>, that value is what gets called,
  and as no value here is callable the call throws a \<^verbatim>\<open>TypeError\<close>.
\<close>

definition run_enrich :: "env \<Rightarrow> runner \<Rightarrow> RawKafkaEvent option outcome \<times> runner" where
  "run_enrich h r4 =
     (let (ev5, postCookielessEvent) = cookielessManager_processEvent h (event r4);
          r5 = r4\<lparr>event := ev5, calls := calls r4 @ [CookielessProcessEvent]\<rparr>
      in case postCookielessEvent of
           None \<Rightarrow> (Returned None, r5\<lparr>transformDropped := transformDropped r5 + 1\<rparr>)
         | Some pce \<Rightarrow>
            (let (ev6, result_event) = transformEventAndProduceMessages h (event r5);
                 r6 = r5\<lparr>event := ev6, calls := calls r5 @ [TransformEventAndProduceMessages]\<rparr>
             in case result_event of
                  None \<Rightarrow> (Returned None, r6\<lparr>transformDropped := transformDropped r6 + 1\<rparr>)
                | Some te \<Rightarrow>
                   (case processGroups h
                           (processPerson h (normalizeEvent h (processAiEvent h r6))) of
                      (Threw e, r7) \<Rightarrow> (Threw e, r7)
                    | (Returned u, r7) \<Rightarrow>
                       (case createKafkaEvent h
                               (processHeatmaps h (trackFirstEventIngestion r7)) of
                          (Threw e, r8) \<Rightarrow> (Threw e, r8)
                        | (Returned kafkaEvent, r8) \<Rightarrow> (Returned (Some kafkaEvent), r8)))))"

definition run_to_assembly :: "env \<Rightarrow> runner \<Rightarrow> RawKafkaEvent option outcome \<times> runner" where
  "run_to_assembly h r0 =
     (let (t, r1) = getTeam h r0;
          r2 = r1\<lparr>team := t\<rparr>
      in case t of
           None \<Rightarrow> (Returned None, dropEvent ''invalid_token'' r2)
         | Some tm \<Rightarrow>
            (let r3 = r2\<lparr>event := (event r2)\<lparr>ev_team_id := t_id tm\<rparr>\<rparr>
             in if ev_event (event r3) = ''$$client_ingestion_warning'' then
                  (Returned None,
                   captureIngestionWarning h ''client_ingestion_warning''
                     [(''message'',
                       obj_get (ev_properties (event r3)) ''$$client_ingestion_warning_message'')]
                     r3)
                else
                  (case validateUuid h r3 of
                     Some e \<Rightarrow> (Threw e, r3)
                   | None \<Rightarrow>
                      (case validatePersonProcessing h r3 of
                         (Threw e, r4) \<Rightarrow> (Threw e, r4)
                       | (Returned u, r4) \<Rightarrow>
                          if ev_event (event r4) = ''$$heatmap'' then
                            (Returned None, processHeatmaps h (normalizeEvent h r4))
                          else run_enrich h r4))))"

definition run_inner :: "env \<Rightarrow> runner \<Rightarrow> unit outcome \<times> runner" where
  "run_inner h r0 =
     (case run_to_assembly h r0 of
        (Threw e, r) \<Rightarrow> (Threw e, r)
      | (Returned None, r) \<Rightarrow> (Returned (), r)
      | (Returned (Some kafkaEvent), r) \<Rightarrow>
          if ev_event (event r) = ''$exception'' then
            (if hasOwnProperty (ev_properties (event r)) ''hasOwnProperty'' then (Threw TypeError, r)
             else if \<not> hasOwnProperty (ev_properties (event r)) ''$sentry_event_id''
             then (Returned (), produceExceptionSymbolificationEventStep h kafkaEvent r)
             else (Returned (), produceEventToKafka h kafkaEvent r))
          else (Returned (), produceEventToKafka h kafkaEvent r))"

text \<open>\<^verbatim>\<open>run\<close>: an \<^verbatim>\<open>EventDroppedError\<close> is recorded as an ingestion warning and re-thrown.\<close>

definition run :: "env \<Rightarrow> runner \<Rightarrow> unit outcome \<times> runner" where
  "run h r0 =
     (case run_inner h r0 of
        (Threw (EventDropped d), r) \<Rightarrow>
          (Threw (EventDropped d),
           captureIngestionWarning h (ingestionWarning d)
             (case ingestionWarningDetails d of None \<Rightarrow> [] | Some details \<Rightarrow> details) r)
      | (Threw TypeError, r) \<Rightarrow> (Threw TypeError, r)
      | (Returned u, r) \<Rightarrow> (Returned u, r))"

text \<open>The runner as \<^verbatim>\<open>_run\<close> has it once the team \<open>tm\<close> is resolved and stored, just
  before the check for client ingestion warnings.\<close>

definition resolved :: "env \<Rightarrow> PipelineEvent \<Rightarrow> Team \<Rightarrow> runner" where
  "resolved h oe tm =
     (let r2 = (snd (getTeam h (new_runner oe)))\<lparr>team := Some tm\<rparr>
      in r2\<lparr>event := (event r2)\<lparr>ev_team_id := t_id tm\<rparr>\<rparr>)"

subsection \<open>Names for the statements\<close>

text \<open>The pieces of \<^verbatim>\<open>createKafkaEvent\<close>, named for the statements below: the property
  bag after the \<^verbatim>\<open>$ip\<close> step, and the record it returns for team \<open>tm\<close>, person \<open>p\<close>
  and the answer \<open>(props2, chain)\<close> of \<^verbatim>\<open>getElementsChain\<close>.\<close>

definition assembly_props1 :: "Team \<Rightarrow> runner \<Rightarrow> obj" where
  "assembly_props1 tm r =
     (if truthy (obj_get (ev_properties (event r)) ''$ip'') \<and> anonymize_ips tm
      then obj_delete ''$ip'' (ev_properties (event r)) else ev_properties (event r))"

definition assembled_record ::
  "env \<Rightarrow> Team \<Rightarrow> Person \<Rightarrow> obj \<Rightarrow> string option \<Rightarrow> runner \<Rightarrow> RawKafkaEvent" where
  "assembled_record h tm p props2 chain r =
     \<lparr>ke_uuid = ev_uuid (event r),
      ke_event = safeClickhouseString h (ev_event (event r)),
      ke_properties = JSON_stringify h (JObj
        (if shouldProcessPerson r then props2
         else delete_group_keys (MAX_GROUP_TYPES_PER_TEAM h) props2)),
      ke_timestamp = castTimestampOrNow h (timestamp r) ClickHouse,
      ke_team_id = t_id tm,
      ke_project_id = t_project_id tm,
      ke_distinct_id = safeClickhouseString h (ev_distinct_id (event r)),
      elements_chain = safeClickhouseString h (case chain of None \<Rightarrow> [] | Some c \<Rightarrow> c),
      created_at = castTimestampOrNow h None ClickHouse,
      person_id = p_uuid p,
      person_properties =
        (if shouldProcessPerson r
         then JSON_stringify h (JObj
                (obj_assign (obj_assign [] (p_properties p)) (dollar_set_entries props2)))
         else ''{}''),
      person_created_at = castTimestampOrNow h (Some (p_created_at p)) ClickHouseSecondPrecision,
      person_mode =
        (if p_force_upgrade p then force_upgrade
         else if \<not> shouldProcessPerson r then propertyless
         else full)\<rparr>"

text \<open>
  Two classes of promises: \<open>is_produce\<close> holds of the \<^verbatim>\<open>produce\<close> calls, and
  \<open>side_promise\<close> of everything except a \<^verbatim>\<open>produce\<close> to a topic other than the heatmaps
  topic (so of warnings, acknowledgements, first-event tracking and heatmap records).
\<close>

fun is_produce :: "promise \<Rightarrow> bool" where
  "is_produce (KafkaPromise (Produce t k v) c) = True"
| "is_produce p = False"

fun side_promise :: "promise \<Rightarrow> bool" where
  "side_promise (KafkaPromise (Produce t k v) c) = (t = CLICKHOUSE_HEATMAPS_KAFKA_TOPIC)"
| "side_promise p = True"

section \<open>Example collaborators and events\<close>

text \<open>A concrete hub, team, person and a few events, on which the theorems below are
  instantiated.\<close>

definition ex_team :: Team where
  "ex_team = \<lparr>t_id = 1, t_project_id = 1, anonymize_ips = False, heatmaps_opt_in = None,
     person_processing_opt_out = None\<rparr>"

definition ex_person :: Person where
  "ex_person = \<lparr>p_uuid = ''p1'', p_properties = [(''plan'', JStr ''free'')], p_created_at = 0,
     p_force_upgrade = False\<rparr>"

text \<open>An example serialiser: a compact JSON printer. A property whose value is
  \<^verbatim>\<open>undefined\<close> is left out and an \<^verbatim>\<open>undefined\<close> array element is printed as \<^verbatim>\<open>null\<close>;
  strings are quoted but not escaped.\<close>

definition ex_quote :: "string \<Rightarrow> string" where
  "ex_quote s = [CHR 0x22] @ s @ [CHR 0x22]"

fun ex_JSON :: "jsval \<Rightarrow> string" where
  "ex_JSON JUndefined = ''null''"
| "ex_JSON JNull = ''null''"
| "ex_JSON (JBool b) = (if b then ''true'' else ''false'')"
| "ex_JSON (JNum n) = show_int n"
| "ex_JSON (JStr s) = ex_quote s"
| "ex_JSON (JArr xs) = ''['' @ join_comma (map ex_JSON xs) @ '']''"
| "ex_JSON (JObj kvs) =
     ''{'' @ join_comma
       (map (\<lambda>kv. ex_quote (fst kv) @ '':'' @ ex_JSON (snd kv))
          (filter (\<lambda>kv. snd kv \<noteq> JUndefined) kvs)) @ ''}''"

definition ex_env :: env where
  "ex_env =
     \<lparr>fetchTeam = (\<lambda>i. if i = 1 then Some ex_team else None),
      getTeamByToken = (\<lambda>s. if s = ''T1'' then Some ex_team else None),
      sanitizeString = map (\<lambda>c. if c = CHR 0x00 then CHR ''?'' else c),
      UUID_validateString = (\<lambda>v. v = JStr ''u1''),
      eventsToSkipPersonsProcessingByToken = (\<lambda>t. None),
      person_keys = (\<lambda>e b. (ev_properties e, ev_rest e)),
      sanitizeEventName = (\<lambda>s. s),
      utils_normalizeEvent = (\<lambda>e. e),
      parseEventTimestamp = (\<lambda>e. (e, 0)),
      cookielessManager_processEvent = (\<lambda>e. (e, Some e)),
      transformEventAndProduceMessages = (\<lambda>e. (e, Some e)),
      utils_processAiEvent = (\<lambda>e. (e, Some e)),
      PersonState_update = (\<lambda>e t d ts b. (e, ex_person)),
      fetchGroupTypeIndex = (\<lambda>t p g. None),
      extractHeatmapData = (\<lambda>e. (e, Some None)),
      getElementsChain = (\<lambda>ps. (ps, Some [])),
      safeClickhouseString = (\<lambda>s. s),
      castTimestampOrNow = (\<lambda>t f. ''now''),
      JSON_stringify = ex_JSON,
      Number_toString = show_int,
      MAX_GROUP_TYPES_PER_TEAM = 5\<rparr>"

definition ex_event :: "string \<Rightarrow> jsval \<Rightarrow> obj \<Rightarrow> PipelineEvent" where
  "ex_event name uuid props =
     \<lparr>pe_token = Some ''T1'', pe_team_id = None, pe_uuid = uuid, pe_event = name,
      pe_distinct_id = ''d1'', pe_properties = Some props, pe_rest = []\<rparr>"

definition ex_null_byte_event :: PipelineEvent where
  "ex_null_byte_event =
     \<lparr>pe_token = Some [CHR ''T'', CHR 0x00, CHR ''1''], pe_team_id = None, pe_uuid = JStr ''u1'',
      pe_event = ''$pageview'', pe_distinct_id = ''d1'', pe_properties = None, pe_rest = []\<rparr>"

definition ex_client_warning :: PipelineEvent where
  "ex_client_warning = ex_event ''$$client_ingestion_warning'' (JStr ''not-a-uuid'')
        [(''$$client_ingestion_warning_message'', JStr ''hello'')]"

definition ex_bad_uuid :: PipelineEvent where
  "ex_bad_uuid = ex_event ''$pageview'' (JStr ''not-a-uuid'') []"

definition ex_number_uuid :: PipelineEvent where
  "ex_number_uuid = ex_event ''$pageview'' (JNum 7) []"

definition ex_team_opt_out :: Team where
  "ex_team_opt_out = ex_team\<lparr>person_processing_opt_out := Some True\<rparr>"

definition ex_env_opt_out :: env where
  "ex_env_opt_out =
     ex_env\<lparr>getTeamByToken := (\<lambda>s. if s = ''T1'' then Some ex_team_opt_out else None)\<rparr>"

definition ex_identify :: PipelineEvent where
  "ex_identify = ex_event ''$identify'' (JStr ''u1'') [(''$process_person_profile'', JBool True)]"


definition ex_env_force_upgrade :: env where
  "ex_env_force_upgrade =
     ex_env\<lparr>PersonState_update := (\<lambda>e t d ts b. (e, ex_person\<lparr>p_force_upgrade := True\<rparr>))\<rparr>"

definition ex_no_profile :: PipelineEvent where
  "ex_no_profile =
     ex_event ''$pageview'' (JStr ''u1'')
       [(''$process_person_profile'', JBool False), (''$group_0'', JStr ''acme'')]"

definition ex_with_set :: PipelineEvent where
  "ex_with_set =
     ex_event ''$pageview'' (JStr ''u1'')
       [(''$set'', JObj [(''plan'', JStr ''pro''), (''city'', JStr ''Oslo'')])]"

definition ex_assembled :: "env \<Rightarrow> PipelineEvent \<Rightarrow> runner" where
  "ex_assembled h oe = processHeatmaps h (trackFirstEventIngestion
     (snd (processGroups h (processPerson h (normalizeEvent h (processAiEvent h
        (snd (validatePersonProcessing h (resolved h oe ex_team)))))))))"

definition ex_record :: RawKafkaEvent where
  "ex_record =
     assembled_record ex_env ex_team ex_person [] (Some [])
       (new_runner (ex_event ''$pageview'' (JStr ''u1'') []))"

text \<open>A hub whose heatmap extraction returns the elements of \<^verbatim>\<open>$heatmap_data\<close>, whose
  normalisation marks the event and whose timestamp parser answers \<open>42\<close>.\<close>

definition ex_env_heatmap :: env where
  "ex_env_heatmap =
     ex_env\<lparr>extractHeatmapData :=
       (\<lambda>e. (e, Some (Some (map (\<lambda>kv. own_entries (snd kv))
                 (own_entries (obj_get (ev_properties e) ''$heatmap_data'')))))),
       utils_normalizeEvent :=
         (\<lambda>e. e\<lparr>ev_properties := obj_set ''normalized'' (JBool True) (ev_properties e)\<rparr>),
       parseEventTimestamp := (\<lambda>e. (e, 42))\<rparr>"

definition ex_heatmap :: PipelineEvent where
  "ex_heatmap =
     ex_event ''$$heatmap'' (JStr ''u1'')
       [(''$heatmap_data'',
         JArr [JObj [(''x'', JNum 1), (''y'', JNum 2)], JObj [(''x'', JNum 3), (''y'', JNum 4)]])]"

definition ex_exception :: PipelineEvent where
  "ex_exception = ex_event ''$exception'' (JStr ''u1'') [(''$exception_message'', JStr ''boom'')]"

definition ex_sentry_exception :: PipelineEvent where
  "ex_sentry_exception =
     ex_event ''$exception'' (JStr ''u1'') [(''$sentry_event_id'', JStr ''s1'')]"

text \<open>An \<^verbatim>\<open>$exception\<close> event with a property named \<^verbatim>\<open>hasOwnProperty\<close>, an \<^verbatim>\<open>$identify\<close>
  event with an invalid uuid, and a plain page view.\<close>

definition ex_shadowing_exception :: PipelineEvent where
  "ex_shadowing_exception =
     ex_event ''$exception'' (JStr ''u1'') [(''hasOwnProperty'', JNum 1)]"

definition ex_identify_bad_uuid :: PipelineEvent where
  "ex_identify_bad_uuid =
     ex_event ''$identify'' (JStr ''not-a-uuid'') [(''$process_person_profile'', JBool True)]"

definition ex_pageview :: PipelineEvent where
  "ex_pageview = ex_event ''$pageview'' (JStr ''u1'') []"

text \<open>A page view whose uuid is an object with a property named \<^verbatim>\<open>toString\<close>; a hub that
  knows one group type, and a \<^verbatim>\<open>$groupidentify\<close> event whose group key is such an object.\<close>

definition ex_object_uuid :: PipelineEvent where
  "ex_object_uuid = ex_event ''$pageview'' (JObj [(''toString'', JNum 0)]) []"

definition ex_env_groups :: env where
  "ex_env_groups = ex_env\<lparr>fetchGroupTypeIndex := (\<lambda>t p g. Some 0)\<rparr>"

definition ex_group_key_object :: PipelineEvent where
  "ex_group_key_object =
     ex_event ''$groupidentify'' (JStr ''u1'')
       [(''$group_type'', JStr ''company''), (''$group_key'', JObj [(''toString'', JNull)])]"

definition ex_group_key_number :: PipelineEvent where
  "ex_group_key_number =
     ex_event ''$groupidentify'' (JStr ''u1'')
       [(''$group_type'', JStr ''company''), (''$group_key'', JNum 7)]"

text \<open>A page view that asks for person processing.\<close>

definition ex_wants_profile :: PipelineEvent where
  "ex_wants_profile =
     ex_event ''$pageview'' (JStr ''u1'') [(''$process_person_profile'', JBool True)]"

section \<open>Properties\<close>

subsection \<open>Team resolution\<close>

lemma getTeam_frame: "snd (getTeam h r) = r\<lparr>calls := calls (snd (getTeam h r))\<rparr>"
  by (simp add: getTeam_def split: option.splits)

text \<open>
  Claim C4. When \<^verbatim>\<open>getTeam\<close> resolves no team, \<^verbatim>\<open>run\<close> returns normally, the only
  changes to the runner are the \<^verbatim>\<open>invalid_token\<close> sample on the drop counter and the
  record of the lookup that was made: no promise is collected and nothing else is
  touched. \<^verbatim>\<open>getTeam\<close> resolves no team without any lookup when both \<^verbatim>\<open>team_id\<close> and
  \<^verbatim>\<open>token\<close> are absent (or falsy); with no \<^verbatim>\<open>team_id\<close> the token is looked up only
  after \<^verbatim>\<open>sanitizeString\<close>; a \<^verbatim>\<open>team_id\<close> is looked up by \<^verbatim>\<open>fetchTeam\<close>.
\<close>

theorem invalid_token_dropped:
  "(fst (getTeam h (new_runner oe)) = None \<longrightarrow>
      run h (new_runner oe) =
        (Returned (),
         (new_runner oe)\<lparr>dropped := [''invalid_token''],
                          calls := calls (snd (getTeam h (new_runner oe)))\<rparr>))
   \<and> (pe_team_id oe \<in> {None, Some 0} \<longrightarrow> pe_token oe \<in> {None, Some []} \<longrightarrow>
        getTeam h (new_runner oe) = (None, new_runner oe))
   \<and> (pe_team_id oe \<in> {None, Some 0} \<longrightarrow> pe_token oe = Some tok \<longrightarrow> tok \<noteq> [] \<longrightarrow>
        getTeam h (new_runner oe) =
          (getTeamByToken h (sanitizeString h tok),
           (new_runner oe)\<lparr>calls := [GetTeamByToken (sanitizeString h tok)]\<rparr>))
   \<and> (pe_team_id oe = Some i \<longrightarrow> i \<noteq> 0 \<longrightarrow>
        getTeam h (new_runner oe) =
          (fetchTeam h i, (new_runner oe)\<lparr>calls := [FetchTeam i]\<rparr>))"
proof (intro conjI impI)
  assume none: "fst (getTeam h (new_runner oe)) = None"
  obtain r1 where g: "getTeam h (new_runner oe) = (None, r1)"
    using none by (cases "getTeam h (new_runner oe)") simp
  have r1: "r1 = (new_runner oe)\<lparr>calls := calls r1\<rparr>"
    using getTeam_frame [of h "new_runner oe"] g by simp
  have "run_to_assembly h (new_runner oe) =
      (Returned None, dropEvent ''invalid_token'' (r1\<lparr>team := None\<rparr>))"
    by (simp add: run_to_assembly_def g)
  moreover have "dropEvent ''invalid_token'' (r1\<lparr>team := None\<rparr>) =
      (new_runner oe)\<lparr>dropped := [''invalid_token''], calls := calls r1\<rparr>"
    by (subst r1) (simp add: dropEvent_def new_runner_def)
  ultimately show "run h (new_runner oe) =
        (Returned (),
         (new_runner oe)\<lparr>dropped := [''invalid_token''],
                          calls := calls (snd (getTeam h (new_runner oe)))\<rparr>)"
    by (simp add: run_def run_inner_def g)
next
  assume "pe_team_id oe \<in> {None, Some 0}" "pe_token oe \<in> {None, Some []}"
  then show "getTeam h (new_runner oe) = (None, new_runner oe)"
    by (auto simp: getTeam_def new_runner_def)
next
  assume "pe_team_id oe \<in> {None, Some 0}" "pe_token oe = Some tok" "tok \<noteq> []"
  then show "getTeam h (new_runner oe) =
          (getTeamByToken h (sanitizeString h tok),
           (new_runner oe)\<lparr>calls := [GetTeamByToken (sanitizeString h tok)]\<rparr>)"
    by (auto simp: getTeam_def new_runner_def)
next
  assume "pe_team_id oe = Some i" "i \<noteq> 0"
  then show "getTeam h (new_runner oe) =
          (fetchTeam h i, (new_runner oe)\<lparr>calls := [FetchTeam i]\<rparr>)"
    by (auto simp: getTeam_def new_runner_def)
qed

text \<open>An event whose token holds a null byte: the sanitised token is looked up, no
  team is found, and the run ends with the \<^verbatim>\<open>invalid_token\<close> drop.\<close>

theorem invalid_token_dropped_witness:
  "fst (getTeam ex_env (new_runner ex_null_byte_event)) = None
   \<and> fst (run ex_env (new_runner ex_null_byte_event)) = Returned ()
   \<and> dropped (snd (run ex_env (new_runner ex_null_byte_event))) = [''invalid_token'']
   \<and> promises (snd (run ex_env (new_runner ex_null_byte_event))) = []
   \<and> calls (snd (run ex_env (new_runner ex_null_byte_event))) = [GetTeamByToken ''T?1'']"
proof -
  have g: "getTeam ex_env (new_runner ex_null_byte_event) =
      (None, (new_runner ex_null_byte_event)\<lparr>calls := [GetTeamByToken ''T?1'']\<rparr>)"
    by (simp add: getTeam_def new_runner_def ex_null_byte_event_def ex_env_def)
  then have none: "fst (getTeam ex_env (new_runner ex_null_byte_event)) = None"
    by simp
  from invalid_token_dropped [of ex_env ex_null_byte_event] none
  have "run ex_env (new_runner ex_null_byte_event) =
      (Returned (), (new_runner ex_null_byte_event)\<lparr>dropped := [''invalid_token''],
         calls := calls (snd (getTeam ex_env (new_runner ex_null_byte_event)))\<rparr>)"
    by blast
  then show ?thesis
    using g by (simp add: new_runner_def)
qed

subsection \<open>Facts about the constructor and object literals\<close>

lemma new_runner_fields:
  "team (new_runner oe) = None"
  "promises (new_runner oe) = []"
  "ev_event (event (new_runner oe)) = pe_event oe"
  "ev_uuid (event (new_runner oe)) = pe_uuid oe"
  "ev_distinct_id (event (new_runner oe)) = pe_distinct_id oe"
  "ev_properties (event (new_runner oe)) = (case pe_properties oe of None \<Rightarrow> [] | Some ps \<Rightarrow> ps)"
  "shouldProcessPerson (new_runner oe) = True"
  "person (new_runner oe) = None"
  "originalEvent (new_runner oe) = oe"
  "dropped (new_runner oe) = []"
  "transformDropped (new_runner oe) = 0"
  "calls (new_runner oe) = []"
  by (simp_all add: new_runner_def)

lemma details_with_message:
  "obj_assign [(''eventUuid'', a), (''event'', b), (''distinctId'', c)] [(''message'', m)] =
     [(''eventUuid'', a), (''event'', b), (''distinctId'', c), (''message'', m)]"
  by (simp add: obj_assign_def obj_set_def hasOwnProperty_def array_index_def is_digit_def)

lemma details_plain: "obj_assign xs [] = xs"
  by (simp add: obj_assign_def)

lemma ex_getTeam:
  "getTeam ex_env (new_runner (ex_event n u ps)) =
     (Some ex_team, (new_runner (ex_event n u ps))\<lparr>calls := [GetTeamByToken ''T1'']\<rparr>)"
  by (simp add: getTeam_def new_runner_def ex_event_def ex_env_def)

subsection \<open>Facts about objects\<close>

lemma map_of_insert_index:
  "map_of ob k = None \<Longrightarrow> map_of (insert_index n k v ob) = (map_of ob)(k \<mapsto> v)"
proof (induction ob)
  case Nil
  then show ?case by simp
next
  case (Cons p ps)
  obtain k' v' where p: "p = (k', v')" by (cases p)
  from Cons.prems p have ne: "k' \<noteq> k" and rest: "map_of ps k = None"
    by (auto split: if_splits)
  show ?case
    using Cons.IH [OF rest] ne p
    by (auto simp: fun_upd_twist split: option.splits)
qed

lemma map_of_obj_set: "map_of (obj_set k v ob) = (map_of ob)(k \<mapsto> v)"
proof (cases "map_of ob k")
  case None
  then show ?thesis
    by (auto simp: obj_set_def hasOwnProperty_def map_of_insert_index map_add_def fun_eq_iff
        split: option.splits)
next
  case (Some a)
  then show ?thesis
    by (simp add: obj_set_def hasOwnProperty_def update_conv')
qed

lemma obj_get_obj_set: "obj_get (obj_set k v ob) k' = (if k' = k then v else obj_get ob k')"
  by (simp add: obj_get_def map_of_obj_set)

lemma obj_set_idem: "obj_set k v (obj_set k v ob) = obj_set k v ob"
proof -
  have "map_of (obj_set k v ob) k = Some v"
    by (simp add: map_of_obj_set)
  then show ?thesis
    by (subst obj_set_def) (simp add: hasOwnProperty_def update_triv)
qed

lemma set_process_person_profile_false_idem:
  "set_process_person_profile_false (set_process_person_profile_false ev) =
     set_process_person_profile_false ev"
  by (simp add: set_process_person_profile_false_def obj_set_idem)

lemma set_process_person_profile_false_fields:
  "obj_get (ev_properties (set_process_person_profile_false ev)) ''$process_person_profile'' = JBool False"
  "ev_event (set_process_person_profile_false ev) = ev_event ev"
  "ev_distinct_id (set_process_person_profile_false ev) = ev_distinct_id ev"
  "ev_uuid (set_process_person_profile_false ev) = ev_uuid ev"
  by (simp_all add: set_process_person_profile_false_def obj_get_obj_set)

subsection \<open>The stages of a run\<close>

lemma getTeam_resolved:
  assumes "fst (getTeam h (new_runner oe)) = Some tm"
  shows "getTeam h (new_runner oe) =
           (Some tm, (new_runner oe)\<lparr>calls := calls (snd (getTeam h (new_runner oe)))\<rparr>)"
  using assms getTeam_frame [of h "new_runner oe"]
  by (cases "getTeam h (new_runner oe)") auto

lemma resolved_eq:
  "resolved h oe tm =
     (new_runner oe)\<lparr>team := Some tm,
        event := (event (new_runner oe))\<lparr>ev_team_id := t_id tm\<rparr>,
        calls := calls (snd (getTeam h (new_runner oe)))\<rparr>"
  by (subst resolved_def, subst getTeam_frame) (simp add: Let_def)

lemma resolved_fields:
  "team (resolved h oe tm) = Some tm"
  "promises (resolved h oe tm) = []"
  "ev_event (event (resolved h oe tm)) = pe_event oe"
  "ev_uuid (event (resolved h oe tm)) = pe_uuid oe"
  "ev_distinct_id (event (resolved h oe tm)) = pe_distinct_id oe"
  "ev_properties (event (resolved h oe tm)) =
     (case pe_properties oe of None \<Rightarrow> [] | Some ps \<Rightarrow> ps)"
  "shouldProcessPerson (resolved h oe tm) = True"
  "person (resolved h oe tm) = None"
  "originalEvent (resolved h oe tm) = oe"
  "dropped (resolved h oe tm) = []"
  "transformDropped (resolved h oe tm) = 0"
  "calls (resolved h oe tm) = calls (snd (getTeam h (new_runner oe)))"
  by (simp_all add: resolved_eq new_runner_def)

lemma run_to_assembly_resolved:
  assumes "fst (getTeam h (new_runner oe)) = Some tm"
  shows "run_to_assembly h (new_runner oe) =
     (if pe_event oe = ''$$client_ingestion_warning'' then
        (Returned None,
         captureIngestionWarning h ''client_ingestion_warning''
           [(''message'',
             obj_get (ev_properties (event (resolved h oe tm))) ''$$client_ingestion_warning_message'')]
           (resolved h oe tm))
      else
        (case validateUuid h (resolved h oe tm) of
           Some e \<Rightarrow> (Threw e, resolved h oe tm)
         | None \<Rightarrow>
            (case validatePersonProcessing h (resolved h oe tm) of
               (Threw e, r4) \<Rightarrow> (Threw e, r4)
             | (Returned u, r4) \<Rightarrow>
                if ev_event (event r4) = ''$$heatmap'' then
                  (Returned None, processHeatmaps h (normalizeEvent h r4))
                else run_enrich h r4)))"
proof -
  obtain r1 where g: "getTeam h (new_runner oe) = (Some tm, r1)"
    using assms by (cases "getTeam h (new_runner oe)") simp
  have n: "ev_event (event (resolved h oe tm)) = pe_event oe"
    by (simp add: resolved_fields)
  have "run_to_assembly h (new_runner oe) =
     (if ev_event (event (resolved h oe tm)) = ''$$client_ingestion_warning'' then
        (Returned None,
         captureIngestionWarning h ''client_ingestion_warning''
           [(''message'',
             obj_get (ev_properties (event (resolved h oe tm))) ''$$client_ingestion_warning_message'')]
           (resolved h oe tm))
      else
        (case validateUuid h (resolved h oe tm) of
           Some e \<Rightarrow> (Threw e, resolved h oe tm)
         | None \<Rightarrow>
            (case validatePersonProcessing h (resolved h oe tm) of
               (Threw e, r4) \<Rightarrow> (Threw e, r4)
             | (Returned u, r4) \<Rightarrow>
                if ev_event (event r4) = ''$$heatmap'' then
                  (Returned None, processHeatmaps h (normalizeEvent h r4))
                else run_enrich h r4)))"
    unfolding run_to_assembly_def resolved_def Let_def g prod.case option.case snd_conv ..
  then show ?thesis
    by (simp only: n)
qed

lemma run_threw:
  "run_to_assembly h r0 = (Threw (EventDropped d), r) \<Longrightarrow>
   run h r0 =
     (Threw (EventDropped d),
      captureIngestionWarning h (ingestionWarning d)
        (case ingestionWarningDetails d of None \<Rightarrow> [] | Some details \<Rightarrow> details) r)"
  by (simp add: run_def run_inner_def)

lemma run_returned_early:
  "run_to_assembly h r0 = (Returned None, r) \<Longrightarrow> run h r0 = (Returned (), r)"
  by (simp add: run_def run_inner_def)

lemma run_assembled:
  "run_to_assembly h r0 = (Returned (Some ke), r) \<Longrightarrow>
   run h r0 =
     (if ev_event (event r) = ''$exception''
         \<and> hasOwnProperty (ev_properties (event r)) ''hasOwnProperty''
      then (Threw TypeError, r)
      else (Returned (),
            if ev_event (event r) = ''$exception''
               \<and> \<not> hasOwnProperty (ev_properties (event r)) ''$sentry_event_id''
            then produceExceptionSymbolificationEventStep h ke r
            else produceEventToKafka h ke r))"
  by (simp add: run_def run_inner_def)

lemma ex_getTeam_fst: "fst (getTeam ex_env (new_runner (ex_event n u ps))) = Some ex_team"
  by (simp add: ex_getTeam)

lemma ex_resolved:
  "resolved ex_env (ex_event n u ps) ex_team =
     (new_runner (ex_event n u ps))\<lparr>team := Some ex_team,
        event := (event (new_runner (ex_event n u ps)))\<lparr>ev_team_id := 1\<rparr>,
        calls := [GetTeamByToken ''T1'']\<rparr>"
  by (simp add: resolved_eq ex_getTeam ex_team_def)

subsection \<open>What each step leaves untouched\<close>

lemma captureIngestionWarning_fields:
  "calls (captureIngestionWarning h w d r) = calls r"
  "person (captureIngestionWarning h w d r) = person r"
  "team (captureIngestionWarning h w d r) = team r"
  "event (captureIngestionWarning h w d r) = event r"
  "dropped (captureIngestionWarning h w d r) = dropped r"
  "transformDropped (captureIngestionWarning h w d r) = transformDropped r"
  "shouldProcessPerson (captureIngestionWarning h w d r) = shouldProcessPerson r"
  "filter is_produce (promises (captureIngestionWarning h w d r)) = filter is_produce (promises r)"
  "list_all side_promise (promises (captureIngestionWarning h w d r)) =
     list_all side_promise (promises r)"
  by (simp_all add: captureIngestionWarning_def)

lemma normalizeEvent_fields:
  "calls (normalizeEvent h r) = calls r"
  "person (normalizeEvent h r) = person r"
  "team (normalizeEvent h r) = team r"
  "dropped (normalizeEvent h r) = dropped r"
  "transformDropped (normalizeEvent h r) = transformDropped r"
  "promises (normalizeEvent h r) = promises r"
  "shouldProcessPerson (normalizeEvent h r) = shouldProcessPerson r"
  by (simp_all add: normalizeEvent_def Let_def split: prod.splits)

lemma processAiEvent_fields:
  "calls (processAiEvent h r) = calls r"
  "team (processAiEvent h r) = team r"
  "promises (processAiEvent h r) = promises r"
  by (simp_all add: processAiEvent_def split: prod.splits option.splits)

lemma processPerson_fields:
  "team (processPerson h r) = team r"
  "list_all side_promise (promises (processPerson h r)) = list_all side_promise (promises r)"
  by (simp_all add: processPerson_def Let_def split: prod.splits)

lemma groups_loop_fields:
  "promises (groups_loop h tm es r) = promises r"
  "team (groups_loop h tm es r) = team r"
  by (induction h tm es r rule: groups_loop.induct;
      simp add: Let_def set_properties_def split: option.splits)+

lemma processGroups_fields:
  "promises (snd (processGroups h r)) = promises r"
  "team (snd (processGroups h r)) = team r"
  by (simp_all add: processGroups_def Let_def groups_loop_fields split: option.splits)

lemma trackFirstEventIngestion_fields:
  "team (trackFirstEventIngestion r) = team r"
  "list_all side_promise (promises (trackFirstEventIngestion r)) =
     list_all side_promise (promises r)"
  by (simp_all add: trackFirstEventIngestion_def)

lemma heatmap_promises:
  "filter is_produce (map (heatmap_promise h u) l) = map (heatmap_promise h u) l"
  "list_all side_promise (map (heatmap_promise h u) l)"
  by (induction l) (simp_all add: heatmap_promise_def)

lemma processHeatmaps_fields:
  "calls (processHeatmaps h r) = calls r"
  "person (processHeatmaps h r) = person r"
  "team (processHeatmaps h r) = team r"
  "dropped (processHeatmaps h r) = dropped r"
  "transformDropped (processHeatmaps h r) = transformDropped r"
  "shouldProcessPerson (processHeatmaps h r) = shouldProcessPerson r"
  "list_all side_promise (promises (processHeatmaps h r)) = list_all side_promise (promises r)"
  by (simp_all add: processHeatmaps_def Let_def set_properties_def captureIngestionWarning_fields
      heatmap_promises split: prod.splits option.splits)

lemma createKafkaEvent_fields:
  "promises (snd (createKafkaEvent h r)) = promises r"
  by (simp add: createKafkaEvent_def Let_def set_properties_def split: prod.splits option.splits)

lemma side_promise_not_enriched:
  "side_promise p \<Longrightarrow>
     \<not> produces_to CLICKHOUSE_JSON_EVENTS_KAFKA_TOPIC p
     \<and> \<not> produces_to EXCEPTIONS_SYMBOLIFICATION_KAFKA_TOPIC p"
  by (cases p rule: side_promise.cases) auto

text \<open>Validation of an event that is none of the four identity events returns normally
  and touches only the event, the person-processing flag and, with a warning, the promises.\<close>

lemma validatePersonProcessing_passes:
  assumes "team r = Some tm"
    and "ev_event (event r) \<notin>
           set [''$identify'', ''$create_alias'', ''$merge_dangerously'', ''$groupidentify'']"
  shows "fst (validatePersonProcessing h r) = Returned ()"
    and "calls (snd (validatePersonProcessing h r)) = calls r"
    and "person (snd (validatePersonProcessing h r)) = person r"
    and "team (snd (validatePersonProcessing h r)) = team r"
    and "dropped (snd (validatePersonProcessing h r)) = dropped r"
    and "transformDropped (snd (validatePersonProcessing h r)) = transformDropped r"
    and "filter is_produce (promises (snd (validatePersonProcessing h r))) =
           filter is_produce (promises r)"
    and "list_all side_promise (promises (snd (validatePersonProcessing h r))) =
           list_all side_promise (promises r)"
    and "ev_event (event (snd (validatePersonProcessing h r))) = ev_event (event r)"
    and "ev_uuid (event (snd (validatePersonProcessing h r))) = ev_uuid (event r)"
  using assms
  by (simp_all add: validatePersonProcessing_def Let_def captureIngestionWarning_fields
      set_process_person_profile_false_fields normalizeProcessPerson_def split: option.splits)

text \<open>The drop counter: \<^verbatim>\<open>dropEvent\<close> is called only when no team resolves, so a run
  that assembles a record has counted no drop.\<close>

lemma groups_loop_dropped: "dropped (groups_loop h tm es r) = dropped r"
  by (induction h tm es r rule: groups_loop.induct)
     (simp_all add: Let_def set_properties_def split: option.splits)

lemma step_dropped:
  "dropped (processAiEvent h r) = dropped r"
  "dropped (processPerson h r) = dropped r"
  "dropped (snd (processGroups h r)) = dropped r"
  "dropped (trackFirstEventIngestion r) = dropped r"
  "dropped (snd (createKafkaEvent h r)) = dropped r"
  "dropped (snd (validatePersonProcessing h r)) = dropped r"
  "dropped (snd (getTeam h r)) = dropped r"
  by (simp_all add: processAiEvent_def processPerson_def processGroups_def
      trackFirstEventIngestion_def createKafkaEvent_def validatePersonProcessing_def getTeam_def
      groups_loop_dropped captureIngestionWarning_fields set_properties_def Let_def
      split: prod.splits option.splits)

lemma step_dropped_pair:
  "processGroups h x = (a, b) \<Longrightarrow> dropped b = dropped x"
  "createKafkaEvent h x = (c, d) \<Longrightarrow> dropped d = dropped x"
  using step_dropped(3) [of h x] step_dropped(5) [of h x] by simp_all

lemma run_enrich_dropped: "dropped (snd (run_enrich h r)) = dropped r"
  unfolding run_enrich_def Let_def
  by (auto simp: step_dropped step_dropped_pair processHeatmaps_fields normalizeEvent_fields
      split: prod.splits option.splits outcome.splits)

lemma run_to_assembly_dropped:
  assumes "run_to_assembly h (new_runner oe) = (Returned (Some ke), r)"
  shows "dropped r = []"
proof (cases "fst (getTeam h (new_runner oe))")
  case None
  then obtain r1 where g: "getTeam h (new_runner oe) = (None, r1)"
    by (cases "getTeam h (new_runner oe)") simp
  with assms show ?thesis
    by (simp add: run_to_assembly_def)
next
  case (Some tm)
  obtain o4 r4 where v: "validatePersonProcessing h (resolved h oe tm) = (o4, r4)"
    by (cases "validatePersonProcessing h (resolved h oe tm)")
  have d4: "dropped r4 = []"
    using step_dropped(6) [of h "resolved h oe tm"] v by (simp add: resolved_fields)
  from assms have "run_enrich h r4 = (Returned (Some ke), r)"
    by (cases o4)
       (auto simp: run_to_assembly_resolved [OF Some] v split: if_splits option.splits)
  then show ?thesis
    using run_enrich_dropped [of h r4] d4 by simp
qed

subsection \<open>String conversion of free-form values\<close>

text \<open>An object converts to \<^verbatim>\<open>[object Object]\<close> unless a property named \<^verbatim>\<open>toString\<close>
  shadows the inherited method; an array joins its elements and fails with them.\<close>

lemma js_String_examples:
  "js_String show_int (JObj [(''a'', JNum 1)]) = Some ''[object Object]''"
  "js_String show_int (JObj [(''toString'', JNum 0)]) = None"
  "js_String show_int (JArr [JNum 1, JNull, JStr ''a'']) = Some ''1,,a''"
  "js_String show_int (JArr [JNum 1, JObj [(''toString'', JNull)]]) = None"
  by code_simp+

text \<open>An event whose invalid uuid is such an object: building the message throws, so
  \<^verbatim>\<open>run\<close> raises a \<^verbatim>\<open>TypeError\<close> and queues nothing.\<close>

lemma invalid_uuid_type_error:
  "\<not> UUID_validateString ex_env (pe_uuid ex_object_uuid)
   \<and> fst (run ex_env (new_runner ex_object_uuid)) = Threw TypeError
   \<and> promises (snd (run ex_env (new_runner ex_object_uuid))) = []
   \<and> dropped (snd (run ex_env (new_runner ex_object_uuid))) = []"
  by code_simp

text \<open>A \<^verbatim>\<open>$groupidentify\<close> event whose group key is a number is upserted under the
  number's rendering; one whose group key is such an object makes
  \<^verbatim>\<open>groupKey.toString()\<close> throw after the group type index has been fetched.\<close>

lemma group_key_conversion:
  "fst (run ex_env_groups (new_runner ex_group_key_number)) = Returned ()
   \<and> UpsertGroup 0 ''7'' \<in> set (calls (snd (run ex_env_groups (new_runner ex_group_key_number))))
   \<and> fst (run ex_env_groups (new_runner ex_group_key_object)) = Threw TypeError
   \<and> calls (snd (run ex_env_groups (new_runner ex_group_key_object))) =
       [GetTeamByToken ''T1'', CookielessProcessEvent, TransformEventAndProduceMessages,
        PersonStateUpdate, FetchGroupTypeIndex (JStr ''company'')]"
  by code_simp

subsection \<open>Client ingestion warnings\<close>

text \<open>
  Claim C10. For an event named \<^verbatim>\<open>$$client_ingestion_warning\<close> whose team resolves,
  \<^verbatim>\<open>run\<close> returns normally. The runner it leaves behind is the freshly constructed one
  with the team set, the team lookup recorded and exactly one promise: a
  \<^verbatim>\<open>queueMessages\<close> call on the ingestion-warnings topic with one message, the
  serialisation of \<^verbatim>\<open>{team_id, type: "client_ingestion_warning", source: "plugin-server",
  details, timestamp}\<close>, whose details are the serialised
  \<^verbatim>\<open>{eventUuid, event, distinctId, message}\<close> with the event's
  \<^verbatim>\<open>$$client_ingestion_warning_message\<close> as the message. No person is resolved, no other
  collaborator is called and nothing is produced to any other topic. The uuid is not a
  hypothesis: the statement holds whether or not it is valid.
\<close>

theorem client_ingestion_warning_early_exit:
  assumes "fst (getTeam h (new_runner oe)) = Some tm"
    and "pe_event oe = ''$$client_ingestion_warning''"
  shows "run h (new_runner oe) =
     (Returned (),
      (new_runner oe)\<lparr>team := Some tm,
         event := (event (new_runner oe))\<lparr>ev_team_id := t_id tm\<rparr>,
         calls := calls (snd (getTeam h (new_runner oe))),
         promises :=
           [KafkaPromise
              (QueueMessages KAFKA_INGESTION_WARNINGS
                 [JSON_stringify h (JObj
                    [(''team_id'', JNum (t_id tm)),
                     (''type'', JStr ''client_ingestion_warning''),
                     (''source'', JStr ''plugin-server''),
                     (''details'', JStr (JSON_stringify h (JObj
                        [(''eventUuid'',
                            if is_string (pe_uuid oe) then pe_uuid oe
                            else if pe_uuid oe = JUndefined then JUndefined
                            else JStr (JSON_stringify h (pe_uuid oe))),
                         (''event'', JStr ''$$client_ingestion_warning''),
                         (''distinctId'', JStr (pe_distinct_id oe)),
                         (''message'',
                            obj_get (case pe_properties oe of None \<Rightarrow> [] | Some ps \<Rightarrow> ps)
                              ''$$client_ingestion_warning_message'')]))),
                     (''timestamp'', JStr (castTimestampOrNow h None ClickHouse))])])
              CatchLogWarning]\<rparr>)"
proof -
  obtain cs where g: "getTeam h (new_runner oe) = (Some tm, (new_runner oe)\<lparr>calls := cs\<rparr>)"
    using assms(1) getTeam_frame [of h "new_runner oe"]
    by (cases "getTeam h (new_runner oe)") auto
  show ?thesis
    using assms(2)
    by (simp add: run_def run_inner_def run_to_assembly_def g captureIngestionWarning_def
        warning_message_def stringify_value_def new_runner_fields details_with_message)
qed

text \<open>A client ingestion warning whose uuid does not validate is accepted; the one
  message queued is the warning record with the client's text in it.\<close>

theorem client_ingestion_warning_early_exit_witness:
  "\<not> UUID_validateString ex_env (pe_uuid ex_client_warning)
   \<and> fst (run ex_env (new_runner ex_client_warning)) = Returned ()
   \<and> promises (snd (run ex_env (new_runner ex_client_warning))) =
       [KafkaPromise
          (QueueMessages KAFKA_INGESTION_WARNINGS
             [ex_JSON (JObj
                [(''team_id'', JNum 1),
                 (''type'', JStr ''client_ingestion_warning''),
                 (''source'', JStr ''plugin-server''),
                 (''details'', JStr (ex_JSON (JObj
                    [(''eventUuid'', JStr ''not-a-uuid''),
                     (''event'', JStr ''$$client_ingestion_warning''),
                     (''distinctId'', JStr ''d1''),
                     (''message'', JStr ''hello'')]))),
                 (''timestamp'', JStr ''now'')])])
          CatchLogWarning]
   \<and> calls (snd (run ex_env (new_runner ex_client_warning))) = [GetTeamByToken ''T1'']
   \<and> person (snd (run ex_env (new_runner ex_client_warning))) = None
   \<and> dropped (snd (run ex_env (new_runner ex_client_warning))) = []"
proof -
  have g: "fst (getTeam ex_env (new_runner ex_client_warning)) = Some ex_team"
    by (simp add: ex_client_warning_def ex_getTeam)
  have n: "pe_event ex_client_warning = ''$$client_ingestion_warning''"
    by (simp add: ex_client_warning_def ex_event_def)
  have u: "\<not> UUID_validateString ex_env (pe_uuid ex_client_warning)"
    by (simp add: ex_client_warning_def ex_event_def ex_env_def)
  have e: "JSON_stringify ex_env = ex_JSON" "castTimestampOrNow ex_env None ClickHouse = ''now''"
    by (simp_all add: ex_env_def)
  show ?thesis
    using client_ingestion_warning_early_exit [OF g n] u
    by (simp add: ex_client_warning_def ex_getTeam new_runner_fields e)
       (simp add: ex_event_def ex_team_def obj_get_def)
qed

subsection \<open>UUID validation\<close>

text \<open>
  Claim C5, as stated, fails: the early exit for \<^verbatim>\<open>$$client_ingestion_warning\<close> comes
  before \<^verbatim>\<open>validateUuid\<close>, so such an event with a resolved team and an invalid uuid is
  not dropped.
\<close>

theorem invalid_uuid_counterexample:
  "fst (getTeam ex_env (new_runner ex_client_warning)) = Some ex_team
   \<and> \<not> UUID_validateString ex_env (pe_uuid ex_client_warning)
   \<and> fst (run ex_env (new_runner ex_client_warning)) = Returned ()"
  by (simp add: ex_client_warning_def ex_getTeam run_def run_inner_def run_to_assembly_def)
     (simp add: ex_event_def ex_env_def new_runner_def)

text \<open>
  Claim C5, amended. Take an event with a resolved team that is not named
  \<^verbatim>\<open>$$client_ingestion_warning\<close>, whose uuid fails \<^verbatim>\<open>UUID.validateString\<close> and converts to
  the string \<open>s\<close> (every string does, to itself). Then \<^verbatim>\<open>run\<close> raises an
  \<^verbatim>\<open>EventDroppedError\<close> with warning code \<^verbatim>\<open>invalid_event_uuid\<close>, the message
  \<^verbatim>\<open>Not a valid UUID: "s"\<close> and \<^verbatim>\<open>doNotSendToDLQ\<close> false, having queued exactly one
  message on the ingestion-warnings topic: the serialised record \<^verbatim>\<open>{team_id, type:
  "invalid_event_uuid", source: "plugin-server", details, timestamp}\<close> whose details are
  the serialised \<^verbatim>\<open>{eventUuid, event, distinctId}\<close>. Nothing else was done. What happens
  when the uuid does not convert to a string is left open here.
\<close>

theorem invalid_uuid_dropped:
  assumes "fst (getTeam h (new_runner oe)) = Some tm"
    and "pe_event oe \<noteq> ''$$client_ingestion_warning''"
    and "\<not> UUID_validateString h (pe_uuid oe)"
    and "js_String (Number_toString h) (pe_uuid oe) = Some s"
  shows "run h (new_runner oe) =
     (Threw (EventDropped
        \<lparr>ingestionWarning = ''invalid_event_uuid'',
         message = ''Not a valid UUID: '' @ [CHR 0x22] @ s @ [CHR 0x22],
         doNotSendToDLQ = False,
         ingestionWarningDetails = None\<rparr>),
      (new_runner oe)\<lparr>team := Some tm,
         event := (event (new_runner oe))\<lparr>ev_team_id := t_id tm\<rparr>,
         calls := calls (snd (getTeam h (new_runner oe))),
         promises :=
           [KafkaPromise
              (QueueMessages KAFKA_INGESTION_WARNINGS
                 [JSON_stringify h (JObj
                    [(''team_id'', JNum (t_id tm)),
                     (''type'', JStr ''invalid_event_uuid''),
                     (''source'', JStr ''plugin-server''),
                     (''details'', JStr (JSON_stringify h (JObj
                        [(''eventUuid'',
                            if is_string (pe_uuid oe) then pe_uuid oe
                            else if pe_uuid oe = JUndefined then JUndefined
                            else JStr (JSON_stringify h (pe_uuid oe))),
                         (''event'', JStr (pe_event oe)),
                         (''distinctId'', JStr (pe_distinct_id oe))]))),
                     (''timestamp'', JStr (castTimestampOrNow h None ClickHouse))])])
              CatchLogWarning]\<rparr>)"
proof -
  obtain cs where g: "getTeam h (new_runner oe) = (Some tm, (new_runner oe)\<lparr>calls := cs\<rparr>)"
    using assms(1) getTeam_frame [of h "new_runner oe"]
    by (cases "getTeam h (new_runner oe)") auto
  show ?thesis
    using assms(2,3,4)
    by (simp add: run_def run_inner_def run_to_assembly_def g captureIngestionWarning_def
        warning_message_def stringify_value_def new_runner_fields details_plain validateUuid_def
        new_EventDroppedError_def)
qed

text \<open>A page view whose uuid is the string \<^verbatim>\<open>not-a-uuid\<close>, and one whose uuid is the
  number 7.\<close>

theorem invalid_uuid_dropped_witness:
  "fst (run ex_env (new_runner ex_bad_uuid)) =
     Threw (EventDropped
        \<lparr>ingestionWarning = ''invalid_event_uuid'',
         message = ''Not a valid UUID: '' @ [CHR 0x22] @ ''not-a-uuid'' @ [CHR 0x22],
         doNotSendToDLQ = False,
         ingestionWarningDetails = None\<rparr>)
   \<and> promises (snd (run ex_env (new_runner ex_bad_uuid))) =
       [KafkaPromise
          (QueueMessages KAFKA_INGESTION_WARNINGS
             [ex_JSON (JObj
                [(''team_id'', JNum 1),
                 (''type'', JStr ''invalid_event_uuid''),
                 (''source'', JStr ''plugin-server''),
                 (''details'', JStr (ex_JSON (JObj
                    [(''eventUuid'', JStr ''not-a-uuid''),
                     (''event'', JStr ''$pageview''),
                     (''distinctId'', JStr ''d1'')]))),
                 (''timestamp'', JStr ''now'')])])
          CatchLogWarning]
   \<and> calls (snd (run ex_env (new_runner ex_bad_uuid))) = [GetTeamByToken ''T1'']
   \<and> dropped (snd (run ex_env (new_runner ex_bad_uuid))) = []
   \<and> fst (run ex_env (new_runner ex_number_uuid)) =
     Threw (EventDropped
        \<lparr>ingestionWarning = ''invalid_event_uuid'',
         message = ''Not a valid UUID: '' @ [CHR 0x22] @ ''7'' @ [CHR 0x22],
         doNotSendToDLQ = False,
         ingestionWarningDetails = None\<rparr>)
   \<and> promises (snd (run ex_env (new_runner ex_number_uuid))) =
       [KafkaPromise
          (QueueMessages KAFKA_INGESTION_WARNINGS
             [ex_JSON (JObj
                [(''team_id'', JNum 1),
                 (''type'', JStr ''invalid_event_uuid''),
                 (''source'', JStr ''plugin-server''),
                 (''details'', JStr (ex_JSON (JObj
                    [(''eventUuid'', JStr ''7''),
                     (''event'', JStr ''$pageview''),
                     (''distinctId'', JStr ''d1'')]))),
                 (''timestamp'', JStr ''now'')])])
          CatchLogWarning]"
proof -
  have g: "fst (getTeam ex_env (new_runner ex_bad_uuid)) = Some ex_team"
    by (simp add: ex_bad_uuid_def ex_getTeam)
  have n: "pe_event ex_bad_uuid \<noteq> ''$$client_ingestion_warning''"
    by (simp add: ex_bad_uuid_def ex_event_def)
  have u: "\<not> UUID_validateString ex_env (pe_uuid ex_bad_uuid)"
    by (simp add: ex_bad_uuid_def ex_event_def ex_env_def)
  have s: "js_String (Number_toString ex_env) (pe_uuid ex_bad_uuid) = Some ''not-a-uuid''"
    by (simp add: ex_bad_uuid_def ex_event_def)
  have e: "JSON_stringify ex_env = ex_JSON" "castTimestampOrNow ex_env None ClickHouse = ''now''"
    by (simp_all add: ex_env_def)
  have g7: "fst (getTeam ex_env (new_runner ex_number_uuid)) = Some ex_team"
    by (simp add: ex_number_uuid_def ex_getTeam)
  have n7: "pe_event ex_number_uuid \<noteq> ''$$client_ingestion_warning''"
    by (simp add: ex_number_uuid_def ex_event_def)
  have u7: "\<not> UUID_validateString ex_env (pe_uuid ex_number_uuid)"
    by (simp add: ex_number_uuid_def ex_event_def ex_env_def)
  have s7: "js_String (Number_toString ex_env) (pe_uuid ex_number_uuid) = Some ''7''"
    by code_simp
  have j7: "ex_JSON (JNum 7) = ''7''"
    by code_simp
  have i7: "pe_uuid ex_number_uuid = JNum 7" "pe_event ex_number_uuid = ''$pageview''"
    "pe_distinct_id ex_number_uuid = ''d1''" "t_id ex_team = 1"
    by (simp_all add: ex_number_uuid_def ex_event_def ex_team_def)
  have a: "fst (run ex_env (new_runner ex_bad_uuid)) =
     Threw (EventDropped
        \<lparr>ingestionWarning = ''invalid_event_uuid'',
         message = ''Not a valid UUID: '' @ [CHR 0x22] @ ''not-a-uuid'' @ [CHR 0x22],
         doNotSendToDLQ = False,
         ingestionWarningDetails = None\<rparr>)
   \<and> promises (snd (run ex_env (new_runner ex_bad_uuid))) =
       [KafkaPromise
          (QueueMessages KAFKA_INGESTION_WARNINGS
             [ex_JSON (JObj
                [(''team_id'', JNum 1),
                 (''type'', JStr ''invalid_event_uuid''),
                 (''source'', JStr ''plugin-server''),
                 (''details'', JStr (ex_JSON (JObj
                    [(''eventUuid'', JStr ''not-a-uuid''),
                     (''event'', JStr ''$pageview''),
                     (''distinctId'', JStr ''d1'')]))),
                 (''timestamp'', JStr ''now'')])])
          CatchLogWarning]
   \<and> calls (snd (run ex_env (new_runner ex_bad_uuid))) = [GetTeamByToken ''T1'']
   \<and> dropped (snd (run ex_env (new_runner ex_bad_uuid))) = []"
    using invalid_uuid_dropped [OF g n u s]
    by (simp add: ex_bad_uuid_def ex_getTeam new_runner_fields e)
       (simp add: ex_event_def ex_team_def)
  have b: "fst (run ex_env (new_runner ex_number_uuid)) =
     Threw (EventDropped
        \<lparr>ingestionWarning = ''invalid_event_uuid'',
         message = ''Not a valid UUID: '' @ [CHR 0x22] @ ''7'' @ [CHR 0x22],
         doNotSendToDLQ = False,
         ingestionWarningDetails = None\<rparr>)
   \<and> promises (snd (run ex_env (new_runner ex_number_uuid))) =
       [KafkaPromise
          (QueueMessages KAFKA_INGESTION_WARNINGS
             [ex_JSON (JObj
                [(''team_id'', JNum 1),
                 (''type'', JStr ''invalid_event_uuid''),
                 (''source'', JStr ''plugin-server''),
                 (''details'', JStr (ex_JSON (JObj
                    [(''eventUuid'', JStr ''7''),
                     (''event'', JStr ''$pageview''),
                     (''distinctId'', JStr ''d1'')]))),
                 (''timestamp'', JStr ''now'')])])
          CatchLogWarning]"
    using invalid_uuid_dropped [OF g7 n7 u7 s7]
    by (simp add: i7 e j7 del: ex_JSON.simps)
  show ?thesis
    using a b by blast
qed

subsection \<open>Person-processing validation\<close>

lemma validatePersonProcessing_opt_out:
  assumes "team r = Some tm" and "person_processing_opt_out tm = Some True"
  shows "validatePersonProcessing h r =
        (if ev_event (event r) \<in>
              set [''$identify'', ''$create_alias'', ''$merge_dangerously'', ''$groupidentify'']
         then (Threw (EventDropped
                 \<lparr>ingestionWarning = ''invalid_event_when_process_person_profile_is_false'',
                  message = ''Invalid event when process_person_profile is false: ''
                              @ [CHR 0x22] @ ev_event (event r) @ [CHR 0x22],
                  doNotSendToDLQ = True,
                  ingestionWarningDetails = None\<rparr>),
               r\<lparr>event := set_process_person_profile_false (event r)\<rparr>)
         else (Returned (),
               r\<lparr>event := normalizeProcessPerson h (set_process_person_profile_false (event r)) False,
                  shouldProcessPerson := False\<rparr>))"
proof (cases "eventsToSkipPersonsProcessingByToken h (pe_token (originalEvent r))")
  case None
  then show ?thesis
    using assms
    by (simp add: validatePersonProcessing_def set_process_person_profile_false_fields
        new_EventDroppedError_def)
next
  case (Some ids)
  then show ?thesis
    using assms
    by (simp add: validatePersonProcessing_def set_process_person_profile_false_fields
        set_process_person_profile_false_idem new_EventDroppedError_def Let_def)
qed

text \<open>
  Claim C3, as stated, fails: \<^verbatim>\<open>validateUuid\<close> runs before
  \<^verbatim>\<open>validatePersonProcessing\<close>. An \<^verbatim>\<open>$identify\<close> event with an invalid uuid, sent to a
  team that has opted out of person processing, is dropped as \<^verbatim>\<open>invalid_event_uuid\<close>
  with \<^verbatim>\<open>doNotSendToDLQ\<close> false, and its \<^verbatim>\<open>$process_person_profile\<close> is still \<^verbatim>\<open>true\<close>
  when the run ends.
\<close>

theorem team_opt_out_counterexample:
  "fst (getTeam ex_env_opt_out (new_runner ex_identify_bad_uuid)) = Some ex_team_opt_out
   \<and> person_processing_opt_out ex_team_opt_out = Some True
   \<and> pe_event ex_identify_bad_uuid = ''$identify''
   \<and> fst (run ex_env_opt_out (new_runner ex_identify_bad_uuid)) =
       Threw (EventDropped
         \<lparr>ingestionWarning = ''invalid_event_uuid'',
          message = ''Not a valid UUID: '' @ [CHR 0x22] @ ''not-a-uuid'' @ [CHR 0x22],
          doNotSendToDLQ = False,
          ingestionWarningDetails = None\<rparr>)
   \<and> obj_get (ev_properties (event (snd (run ex_env_opt_out (new_runner ex_identify_bad_uuid)))))
        ''$process_person_profile'' = JBool True"
  by code_simp

text \<open>
  Claim C3, amended. Take an event whose resolved team has \<^verbatim>\<open>person_processing_opt_out\<close>
  set, that is not a client ingestion warning and whose uuid is valid, so that it reaches
  \<^verbatim>\<open>validatePersonProcessing\<close>. If it is named \<^verbatim>\<open>$identify\<close>, \<^verbatim>\<open>$create_alias\<close>,
  \<^verbatim>\<open>$merge_dangerously\<close> or \<^verbatim>\<open>$groupidentify\<close>, \<^verbatim>\<open>run\<close> throws an \<^verbatim>\<open>EventDroppedError\<close>
  with warning code \<^verbatim>\<open>invalid_event_when_process_person_profile_is_false\<close> and
  \<^verbatim>\<open>doNotSendToDLQ = true\<close>; the runner it leaves holds the event with
  \<^verbatim>\<open>$process_person_profile\<close> overwritten by \<^verbatim>\<open>false\<close>, whatever it carried, and one
  queued ingestion warning of that type. Otherwise the run goes on from the runner
  whose event has \<^verbatim>\<open>$process_person_profile\<close> overwritten by \<^verbatim>\<open>false\<close> (and then its
  person-related keys removed by \<^verbatim>\<open>normalizeProcessPerson\<close>) and whose person processing
  is switched off: on the heatmap path for a \<^verbatim>\<open>$$heatmap\<close> event, on the main path for
  any other.
\<close>

theorem team_opt_out_wins:
  assumes "fst (getTeam h (new_runner oe)) = Some tm"
    and "person_processing_opt_out tm = Some True"
    and "pe_event oe \<noteq> ''$$client_ingestion_warning''"
    and "UUID_validateString h (pe_uuid oe)"
  shows
   "(pe_event oe \<in> set [''$identify'', ''$create_alias'', ''$merge_dangerously'', ''$groupidentify'']
       \<longrightarrow>
     run h (new_runner oe) =
       (Threw (EventDropped
          \<lparr>ingestionWarning = ''invalid_event_when_process_person_profile_is_false'',
           message = ''Invalid event when process_person_profile is false: ''
                       @ [CHR 0x22] @ pe_event oe @ [CHR 0x22],
           doNotSendToDLQ = True,
           ingestionWarningDetails = None\<rparr>),
        (new_runner oe)\<lparr>team := Some tm,
           event := (event (new_runner oe))
             \<lparr>ev_team_id := t_id tm,
              ev_properties := obj_set ''$process_person_profile'' (JBool False)
                                 (ev_properties (event (new_runner oe)))\<rparr>,
           calls := calls (snd (getTeam h (new_runner oe))),
           promises :=
             [KafkaPromise
                (QueueMessages KAFKA_INGESTION_WARNINGS
                   [JSON_stringify h (JObj
                      [(''team_id'', JNum (t_id tm)),
                       (''type'', JStr ''invalid_event_when_process_person_profile_is_false''),
                       (''source'', JStr ''plugin-server''),
                       (''details'', JStr (JSON_stringify h (JObj
                          [(''eventUuid'',
                              if is_string (pe_uuid oe) then pe_uuid oe
                              else if pe_uuid oe = JUndefined then JUndefined
                              else JStr (JSON_stringify h (pe_uuid oe))),
                           (''event'', JStr (pe_event oe)),
                           (''distinctId'', JStr (pe_distinct_id oe))]))),
                       (''timestamp'', JStr (castTimestampOrNow h None ClickHouse))])])
                CatchLogWarning]\<rparr>)
     \<and> obj_get (ev_properties (event (snd (run h (new_runner oe)))))
          ''$process_person_profile'' = JBool False)
  \<and> (pe_event oe \<notin> set [''$identify'', ''$create_alias'', ''$merge_dangerously'', ''$groupidentify'']
       \<longrightarrow>
     obj_get (obj_set ''$process_person_profile'' (JBool False)
                (ev_properties (event (new_runner oe)))) ''$process_person_profile'' = JBool False
     \<and> run_to_assembly h (new_runner oe) =
       (let ev2 = (event (new_runner oe))
                    \<lparr>ev_team_id := t_id tm,
                     ev_properties := obj_set ''$process_person_profile'' (JBool False)
                                        (ev_properties (event (new_runner oe)))\<rparr>;
            r4 = (new_runner oe)\<lparr>team := Some tm,
                   event := ev2\<lparr>ev_properties := fst (person_keys h ev2 False),
                                ev_rest := snd (person_keys h ev2 False)\<rparr>,
                   calls := calls (snd (getTeam h (new_runner oe))),
                   shouldProcessPerson := False\<rparr>
        in if pe_event oe = ''$$heatmap''
           then (Returned None, processHeatmaps h (normalizeEvent h r4))
           else run_enrich h r4))"
proof (intro conjI impI)
  let ?r3 = "resolved h oe tm"
  let ?names = "set [''$identify'', ''$create_alias'', ''$merge_dangerously'', ''$groupidentify'']"
  have t: "team ?r3 = Some tm"
    by (simp add: resolved_fields)
  have u: "validateUuid h ?r3 = None"
    using assms(4) by (simp add: validateUuid_def resolved_fields)
  note v = validatePersonProcessing_opt_out [OF t assms(2), of h]
  {
    assume four: "pe_event oe \<in> ?names"
    let ?d = "\<lparr>ingestionWarning = ''invalid_event_when_process_person_profile_is_false'',
              message = ''Invalid event when process_person_profile is false: ''
                          @ [CHR 0x22] @ pe_event oe @ [CHR 0x22],
              doNotSendToDLQ = True,
              ingestionWarningDetails = None\<rparr>"
    have "validatePersonProcessing h ?r3 =
        (Threw (EventDropped ?d), ?r3\<lparr>event := set_process_person_profile_false (event ?r3)\<rparr>)"
      using four v by (simp add: resolved_fields)
    then have "run_to_assembly h (new_runner oe) =
        (Threw (EventDropped ?d), ?r3\<lparr>event := set_process_person_profile_false (event ?r3)\<rparr>)"
      using assms(3) by (simp add: run_to_assembly_resolved [OF assms(1)] u)
    then have run: "run h (new_runner oe) =
        (Threw (EventDropped ?d),
         captureIngestionWarning h ''invalid_event_when_process_person_profile_is_false'' []
           (?r3\<lparr>event := set_process_person_profile_false (event ?r3)\<rparr>))"
      by (simp add: run_threw)
    show "run h (new_runner oe) =
       (Threw (EventDropped ?d),
        (new_runner oe)\<lparr>team := Some tm,
           event := (event (new_runner oe))
             \<lparr>ev_team_id := t_id tm,
              ev_properties := obj_set ''$process_person_profile'' (JBool False)
                                 (ev_properties (event (new_runner oe)))\<rparr>,
           calls := calls (snd (getTeam h (new_runner oe))),
           promises :=
             [KafkaPromise
                (QueueMessages KAFKA_INGESTION_WARNINGS
                   [JSON_stringify h (JObj
                      [(''team_id'', JNum (t_id tm)),
                       (''type'', JStr ''invalid_event_when_process_person_profile_is_false''),
                       (''source'', JStr ''plugin-server''),
                       (''details'', JStr (JSON_stringify h (JObj
                          [(''eventUuid'',
                              if is_string (pe_uuid oe) then pe_uuid oe
                              else if pe_uuid oe = JUndefined then JUndefined
                              else JStr (JSON_stringify h (pe_uuid oe))),
                           (''event'', JStr (pe_event oe)),
                           (''distinctId'', JStr (pe_distinct_id oe))]))),
                       (''timestamp'', JStr (castTimestampOrNow h None ClickHouse))])])
                CatchLogWarning]\<rparr>)"
      unfolding run
      by (simp add: captureIngestionWarning_def warning_message_def stringify_value_def
          details_plain resolved_eq set_process_person_profile_false_def new_runner_fields)
    show "obj_get (ev_properties (event (snd (run h (new_runner oe)))))
          ''$process_person_profile'' = JBool False"
      unfolding run
      by (simp add: captureIngestionWarning_fields set_process_person_profile_false_fields)
  }
  {
    assume other: "pe_event oe \<notin> ?names"
    show "obj_get (obj_set ''$process_person_profile'' (JBool False)
                (ev_properties (event (new_runner oe)))) ''$process_person_profile'' = JBool False"
      by (simp add: obj_get_obj_set)
    let ?r4 = "?r3\<lparr>event := normalizeProcessPerson h (set_process_person_profile_false (event ?r3)) False,
                  shouldProcessPerson := False\<rparr>"
    have vp: "validatePersonProcessing h ?r3 = (Returned (), ?r4)"
      using other v by (simp add: resolved_fields)
    have name: "ev_event (event ?r4) = pe_event oe"
      by (simp add: normalizeProcessPerson_def set_process_person_profile_false_fields
          resolved_fields)
    have "run_to_assembly h (new_runner oe) =
        (if pe_event oe = ''$$heatmap''
         then (Returned None, processHeatmaps h (normalizeEvent h ?r4))
         else run_enrich h ?r4)"
      using assms(3) name by (simp add: run_to_assembly_resolved [OF assms(1)] u vp)
    moreover have "?r4 =
        (let ev2 = (event (new_runner oe))
                    \<lparr>ev_team_id := t_id tm,
                     ev_properties := obj_set ''$process_person_profile'' (JBool False)
                                        (ev_properties (event (new_runner oe)))\<rparr>
         in (new_runner oe)\<lparr>team := Some tm,
               event := ev2\<lparr>ev_properties := fst (person_keys h ev2 False),
                            ev_rest := snd (person_keys h ev2 False)\<rparr>,
               calls := calls (snd (getTeam h (new_runner oe))),
               shouldProcessPerson := False\<rparr>)"
      by (simp add: resolved_eq set_process_person_profile_false_def normalizeProcessPerson_def
          Let_def)
    ultimately show "run_to_assembly h (new_runner oe) =
       (let ev2 = (event (new_runner oe))
                    \<lparr>ev_team_id := t_id tm,
                     ev_properties := obj_set ''$process_person_profile'' (JBool False)
                                        (ev_properties (event (new_runner oe)))\<rparr>;
            r4 = (new_runner oe)\<lparr>team := Some tm,
                   event := ev2\<lparr>ev_properties := fst (person_keys h ev2 False),
                                ev_rest := snd (person_keys h ev2 False)\<rparr>,
                   calls := calls (snd (getTeam h (new_runner oe))),
                   shouldProcessPerson := False\<rparr>
        in if pe_event oe = ''$$heatmap''
           then (Returned None, processHeatmaps h (normalizeEvent h r4))
           else run_enrich h r4)"
      by (simp only: Let_def)
  }
qed

text \<open>An \<^verbatim>\<open>$identify\<close> event that asks for person processing, sent with a valid uuid to a
  team that has opted out: the run throws, the property has been overwritten and one
  warning is queued. A page view that asks for person processing, sent to the same team,
  is assembled with person processing off.\<close>

theorem team_opt_out_wins_witness:
  "obj_get (ev_properties (event (new_runner ex_identify))) ''$process_person_profile'' = JBool True
   \<and> fst (run ex_env_opt_out (new_runner ex_identify)) =
       Threw (EventDropped
         \<lparr>ingestionWarning = ''invalid_event_when_process_person_profile_is_false'',
          message = ''Invalid event when process_person_profile is false: ''
                      @ [CHR 0x22] @ ''$identify'' @ [CHR 0x22],
          doNotSendToDLQ = True,
          ingestionWarningDetails = None\<rparr>)
   \<and> obj_get (ev_properties (event (snd (run ex_env_opt_out (new_runner ex_identify)))))
        ''$process_person_profile'' = JBool False
   \<and> promises (snd (run ex_env_opt_out (new_runner ex_identify))) =
       [KafkaPromise
          (QueueMessages KAFKA_INGESTION_WARNINGS
             [ex_JSON (JObj
                [(''team_id'', JNum 1),
                 (''type'', JStr ''invalid_event_when_process_person_profile_is_false''),
                 (''source'', JStr ''plugin-server''),
                 (''details'', JStr (ex_JSON (JObj
                    [(''eventUuid'', JStr ''u1''),
                     (''event'', JStr ''$identify''),
                     (''distinctId'', JStr ''d1'')]))),
                 (''timestamp'', JStr ''now'')])])
          CatchLogWarning]
   \<and> obj_get (ev_properties (event (new_runner ex_wants_profile))) ''$process_person_profile''
        = JBool True
   \<and> obj_get (ev_properties (event (snd (run_to_assembly ex_env_opt_out
          (new_runner ex_wants_profile))))) ''$process_person_profile'' = JBool False
   \<and> shouldProcessPerson (snd (run_to_assembly ex_env_opt_out (new_runner ex_wants_profile)))
        = False
   \<and> map_outcome (map_option person_mode)
        (fst (run_to_assembly ex_env_opt_out (new_runner ex_wants_profile))) =
       Returned (Some propertyless)"
proof -
  have g: "fst (getTeam ex_env_opt_out (new_runner ex_identify)) = Some ex_team_opt_out"
    by (simp add: getTeam_def new_runner_def ex_identify_def ex_event_def ex_env_opt_out_def
        ex_env_def)
  have o: "person_processing_opt_out ex_team_opt_out = Some True"
    by (simp add: ex_team_opt_out_def)
  have n: "pe_event ex_identify \<noteq> ''$$client_ingestion_warning''"
    by (simp add: ex_identify_def ex_event_def)
  have u: "UUID_validateString ex_env_opt_out (pe_uuid ex_identify)"
    by (simp add: ex_identify_def ex_event_def ex_env_opt_out_def ex_env_def)
  have four: "pe_event ex_identify \<in>
      set [''$identify'', ''$create_alias'', ''$merge_dangerously'', ''$groupidentify'']"
    by (simp add: ex_identify_def ex_event_def)
  have e: "JSON_stringify ex_env_opt_out = ex_JSON"
    "castTimestampOrNow ex_env_opt_out None ClickHouse = ''now''"
    by (simp_all add: ex_env_opt_out_def ex_env_def)
  have i: "pe_uuid ex_identify = JStr ''u1''" "pe_event ex_identify = ''$identify''"
    "pe_distinct_id ex_identify = ''d1''" "t_id ex_team_opt_out = 1"
    by (simp_all add: ex_identify_def ex_event_def ex_team_opt_out_def ex_team_def)
  from team_opt_out_wins [OF g o n u] four
  have run: "run ex_env_opt_out (new_runner ex_identify) =
       (Threw (EventDropped
          \<lparr>ingestionWarning = ''invalid_event_when_process_person_profile_is_false'',
           message = ''Invalid event when process_person_profile is false: ''
                       @ [CHR 0x22] @ pe_event ex_identify @ [CHR 0x22],
           doNotSendToDLQ = True,
           ingestionWarningDetails = None\<rparr>),
        (new_runner ex_identify)\<lparr>team := Some ex_team_opt_out,
           event := (event (new_runner ex_identify))
             \<lparr>ev_team_id := t_id ex_team_opt_out,
              ev_properties := obj_set ''$process_person_profile'' (JBool False)
                                 (ev_properties (event (new_runner ex_identify)))\<rparr>,
           calls := calls (snd (getTeam ex_env_opt_out (new_runner ex_identify))),
           promises :=
             [KafkaPromise
                (QueueMessages KAFKA_INGESTION_WARNINGS
                   [JSON_stringify ex_env_opt_out (JObj
                      [(''team_id'', JNum (t_id ex_team_opt_out)),
                       (''type'', JStr ''invalid_event_when_process_person_profile_is_false''),
                       (''source'', JStr ''plugin-server''),
                       (''details'', JStr (JSON_stringify ex_env_opt_out (JObj
                          [(''eventUuid'',
                              if is_string (pe_uuid ex_identify) then pe_uuid ex_identify
                              else if pe_uuid ex_identify = JUndefined then JUndefined
                              else JStr (JSON_stringify ex_env_opt_out (pe_uuid ex_identify))),
                           (''event'', JStr (pe_event ex_identify)),
                           (''distinctId'', JStr (pe_distinct_id ex_identify))]))),
                       (''timestamp'', JStr (castTimestampOrNow ex_env_opt_out None ClickHouse))])])
                CatchLogWarning]\<rparr>)"
    and prof: "obj_get (ev_properties (event (snd (run ex_env_opt_out (new_runner ex_identify)))))
          ''$process_person_profile'' = JBool False"
    by blast+
  have a: "fst (run ex_env_opt_out (new_runner ex_identify)) =
       Threw (EventDropped
         \<lparr>ingestionWarning = ''invalid_event_when_process_person_profile_is_false'',
          message = ''Invalid event when process_person_profile is false: ''
                      @ [CHR 0x22] @ ''$identify'' @ [CHR 0x22],
          doNotSendToDLQ = True,
          ingestionWarningDetails = None\<rparr>)"
    by (simp add: run i)
  have b: "promises (snd (run ex_env_opt_out (new_runner ex_identify))) =
       [KafkaPromise
          (QueueMessages KAFKA_INGESTION_WARNINGS
             [ex_JSON (JObj
                [(''team_id'', JNum 1),
                 (''type'', JStr ''invalid_event_when_process_person_profile_is_false''),
                 (''source'', JStr ''plugin-server''),
                 (''details'', JStr (ex_JSON (JObj
                    [(''eventUuid'', JStr ''u1''),
                     (''event'', JStr ''$identify''),
                     (''distinctId'', JStr ''d1'')]))),
                 (''timestamp'', JStr ''now'')])])
          CatchLogWarning]"
    by (simp add: run i e)
  have c: "obj_get (ev_properties (event (new_runner ex_identify))) ''$process_person_profile''
      = JBool True"
    by code_simp
  have d: "obj_get (ev_properties (event (new_runner ex_wants_profile))) ''$process_person_profile''
        = JBool True
   \<and> obj_get (ev_properties (event (snd (run_to_assembly ex_env_opt_out
          (new_runner ex_wants_profile))))) ''$process_person_profile'' = JBool False
   \<and> shouldProcessPerson (snd (run_to_assembly ex_env_opt_out (new_runner ex_wants_profile)))
        = False
   \<and> map_outcome (map_option person_mode)
        (fst (run_to_assembly ex_env_opt_out (new_runner ex_wants_profile))) =
       Returned (Some propertyless)"
    by code_simp
  show ?thesis
    using a b c d prof by blast
qed




subsection \<open>Assembly of the enriched record\<close>

lemma map_of_delete_keys:
  "map_of (fold (\<lambda>i acc. obj_delete (f i) acc) js ps) k =
     (if k \<in> f ` set js then None else map_of ps k)"
  by (induction js arbitrary: ps) (auto simp: obj_delete_def delete_conv')

lemma delete_group_keys_absent:
  "i < n \<Longrightarrow> \<not> hasOwnProperty (delete_group_keys n ps) (''$group_'' @ show_nat i)"
  by (simp add: hasOwnProperty_def delete_group_keys_def map_of_delete_keys)

text \<open>\<^verbatim>\<open>createKafkaEvent\<close> in closed form. It throws unless both the team and the person
  are set; otherwise it returns \<open>assembled_record\<close> and leaves the property bag as
  the record serialises it.\<close>

lemma createKafkaEvent_threw_without_team:
  "team r = None \<Longrightarrow> fst (createKafkaEvent h r) = Threw TypeError"
  by (simp add: createKafkaEvent_def Let_def split: prod.splits)

lemma createKafkaEvent_threw_without_person:
  "team r = Some tm \<Longrightarrow> person r = None \<Longrightarrow> fst (createKafkaEvent h r) = Threw TypeError"
  by (simp add: createKafkaEvent_def Let_def split: prod.splits)

lemma createKafkaEvent_assembled:
  assumes "team r = Some tm" and "person r = Some p"
    and "getElementsChain h (assembly_props1 tm r) = (props2, chain)"
  shows "createKafkaEvent h r =
     (Returned (assembled_record h tm p props2 chain r),
      set_properties
        (if shouldProcessPerson r then props2
         else delete_group_keys (MAX_GROUP_TYPES_PER_TEAM h) props2) r)"
  using assms
  by (simp add: createKafkaEvent_def assembled_record_def assembly_props1_def Let_def
      set_properties_def)

text \<open>
  Claim C1, as stated, fails on the person mode: \<^verbatim>\<open>createKafkaEvent\<close> tests
  \<^verbatim>\<open>person.force_upgrade\<close> first. Here the event carries
  \<^verbatim>\<open>$process_person_profile = false\<close>, person processing is off when the record is
  assembled, the resolved person has \<^verbatim>\<open>force_upgrade\<close> set, and the record's mode is
  \<^verbatim>\<open>force_upgrade\<close>.
\<close>

theorem propertyless_counterexample:
  "obj_get (ev_properties (event (new_runner ex_no_profile))) ''$process_person_profile'' = JBool False
   \<and> obj_get (ev_properties (event (snd (run_to_assembly ex_env_force_upgrade
          (new_runner ex_no_profile))))) ''$process_person_profile'' = JBool False
   \<and> shouldProcessPerson (snd (run_to_assembly ex_env_force_upgrade (new_runner ex_no_profile))) = False
   \<and> map_outcome (map_option person_mode)
        (fst (run_to_assembly ex_env_force_upgrade (new_runner ex_no_profile))) =
       Returned (Some force_upgrade)"
  by code_simp

text \<open>
  Claim C1, amended. Whenever \<^verbatim>\<open>createKafkaEvent\<close> assembles a record with person
  processing disabled, \<^verbatim>\<open>person_properties\<close> is the string \<^verbatim>\<open>{}\<close>, the record's
  \<^verbatim>\<open>properties\<close> are the serialised property bag the runner is left with, that bag has
  none of the keys \<^verbatim>\<open>$group_0\<close> ... \<^verbatim>\<open>$group_(MAX_GROUP_TYPES_PER_TEAM - 1)\<close>, and
  \<^verbatim>\<open>person_mode\<close> is \<^verbatim>\<open>propertyless\<close> unless the resolved person has \<^verbatim>\<open>force_upgrade\<close>
  set, in which case it is \<^verbatim>\<open>force_upgrade\<close>.
\<close>

theorem person_processing_disabled_assembly:
  assumes "\<not> shouldProcessPerson r"
    and "createKafkaEvent h r = (Returned ke, r')"
  shows "person_properties ke = ''{}''
     \<and> (\<exists>p. person r = Some p
           \<and> person_mode ke = (if p_force_upgrade p then force_upgrade else propertyless))
     \<and> ke_properties ke = JSON_stringify h (JObj (ev_properties (event r')))
     \<and> (\<forall>i < MAX_GROUP_TYPES_PER_TEAM h.
           \<not> hasOwnProperty (ev_properties (event r')) (''$group_'' @ show_nat i))"
proof -
  obtain tm where tm: "team r = Some tm"
    using assms(2) createKafkaEvent_threw_without_team [of r h] by (cases "team r") auto
  obtain p where p: "person r = Some p"
    using assms(2) createKafkaEvent_threw_without_person [OF tm, of h] by (cases "person r") auto
  obtain props2 chain where e: "getElementsChain h (assembly_props1 tm r) = (props2, chain)"
    by (cases "getElementsChain h (assembly_props1 tm r)")
  have "createKafkaEvent h r =
      (Returned (assembled_record h tm p props2 chain r),
       set_properties (delete_group_keys (MAX_GROUP_TYPES_PER_TEAM h) props2) r)"
    using assms(1) by (simp add: createKafkaEvent_assembled [OF tm p e])
  with assms(2) have ke: "ke = assembled_record h tm p props2 chain r"
    and r': "r' = set_properties (delete_group_keys (MAX_GROUP_TYPES_PER_TEAM h) props2) r"
    by simp_all
  have g: "\<forall>i < MAX_GROUP_TYPES_PER_TEAM h.
      \<not> hasOwnProperty (delete_group_keys (MAX_GROUP_TYPES_PER_TEAM h) props2)
          (''$group_'' @ show_nat i)"
    using delete_group_keys_absent by blast
  show ?thesis
    using assms(1) p g
    by (simp add: ke r' assembled_record_def set_properties_def)
qed

theorem person_processing_disabled_assembly_witness:
  "\<not> shouldProcessPerson (ex_assembled ex_env ex_no_profile)
   \<and> hasOwnProperty (ev_properties (event (ex_assembled ex_env ex_no_profile))) ''$group_0''
   \<and> map_outcome person_properties (fst (createKafkaEvent ex_env (ex_assembled ex_env ex_no_profile)))
       = Returned ''{}''
   \<and> map_outcome person_mode (fst (createKafkaEvent ex_env (ex_assembled ex_env ex_no_profile)))
       = Returned propertyless
   \<and> ev_properties (event (snd (createKafkaEvent ex_env (ex_assembled ex_env ex_no_profile))))
       = [(''$process_person_profile'', JBool False)]"
proof -
  let ?r = "ex_assembled ex_env ex_no_profile"
  obtain ke r' where c: "createKafkaEvent ex_env ?r = (Returned ke, r')"
    and props: "ev_properties (event r') = [(''$process_person_profile'', JBool False)]"
    and pers: "person ?r = Some ex_person"
  proof -
    have "map_outcome (\<lambda>ke. ()) (fst (createKafkaEvent ex_env ?r)) = Returned ()"
      by code_simp
    then have "\<exists>ke. fst (createKafkaEvent ex_env ?r) = Returned ke"
      by (cases "fst (createKafkaEvent ex_env ?r)") simp_all
    moreover have "ev_properties (event (snd (createKafkaEvent ex_env ?r))) =
        [(''$process_person_profile'', JBool False)]"
      by code_simp
    moreover have "person ?r = Some ex_person"
      by code_simp
    ultimately show ?thesis
      using that by (cases "createKafkaEvent ex_env ?r") auto
  qed
  have s: "\<not> shouldProcessPerson ?r"
    by code_simp
  have g: "hasOwnProperty (ev_properties (event ?r)) ''$group_0''"
    by code_simp
  have f: "\<not> p_force_upgrade ex_person"
    by (simp add: ex_person_def)
  from person_processing_disabled_assembly [OF s c] pers f
  have "person_properties ke = ''{}''" and "person_mode ke = propertyless"
    by auto
  then show ?thesis
    using s g c props by simp
qed

lemma map_of_obj_assign: "map_of (obj_assign target src) = map_of target ++ map_of (rev src)"
  unfolding obj_assign_def
proof (induction src arbitrary: target)
  case Nil
  then show ?case by simp
next
  case (Cons kv src)
  obtain k v where kv: "kv = (k, v)" by (cases kv)
  have "map_of (obj_set k v target) ++ map_of (rev src) =
        map_of target ++ ([k \<mapsto> v] ++ map_of (rev src))"
    by (simp add: map_of_obj_set fun_eq_iff map_add_def split: option.splits)
  then show ?case
    by (simp add: kv Cons.IH)
qed

lemma map_of_rev_distinct: "distinct (map fst xs) \<Longrightarrow> map_of (rev xs) = map_of xs"
proof (induction xs)
  case Nil
  then show ?case by simp
next
  case (Cons kv xs)
  obtain k v where kv: "kv = (k, v)" by (cases kv)
  from Cons.prems kv have "map_of xs k = None"
    by (simp add: map_of_eq_None_iff)
  with Cons kv show ?case
    by (auto simp: fun_eq_iff map_add_def split: option.splits)
qed

lemma obj_get_spread:
  assumes "distinct (map fst a)" and "distinct (map fst b)"
  shows "obj_get (obj_assign (obj_assign [] a) b) k =
           (if hasOwnProperty b k then obj_get b k else obj_get a k)"
    and "hasOwnProperty (obj_assign (obj_assign [] a) b) k =
           (hasOwnProperty b k \<or> hasOwnProperty a k)"
proof -
  have m: "map_of (obj_assign (obj_assign [] a) b) = map_of a ++ map_of b"
    by (simp add: map_of_obj_assign map_of_rev_distinct assms)
  show "obj_get (obj_assign (obj_assign [] a) b) k =
           (if hasOwnProperty b k then obj_get b k else obj_get a k)"
    by (simp add: obj_get_def hasOwnProperty_def m map_add_def split: option.splits)
  show "hasOwnProperty (obj_assign (obj_assign [] a) b) k =
           (hasOwnProperty b k \<or> hasOwnProperty a k)"
    by (simp add: hasOwnProperty_def m map_add_def split: option.splits)
qed

text \<open>
  Claim C2. Whenever \<^verbatim>\<open>createKafkaEvent\<close> assembles a record with person processing
  enabled, \<^verbatim>\<open>person_properties\<close> is the serialisation of the spread
  \<^verbatim>\<open>{...person.properties, ...(properties.$set || {})}\<close>: the resolved person's
  properties overlaid with the event's \<^verbatim>\<open>$set\<close> as the property bag holds it when the
  record is built. For objects (no key twice), a key of \<^verbatim>\<open>$set\<close> reads as in \<^verbatim>\<open>$set\<close>
  and every other key as in the person's properties. When \<^verbatim>\<open>$set\<close> is an object its
  entries are what is spread; when it is absent or falsy nothing is.
\<close>

theorem person_properties_merged:
  assumes "shouldProcessPerson r"
    and "createKafkaEvent h r = (Returned ke, r')"
  shows "\<exists>p. person r = Some p
     \<and> person_properties ke =
         JSON_stringify h (JObj
           (obj_assign (obj_assign [] (p_properties p))
              (dollar_set_entries (ev_properties (event r')))))
     \<and> (distinct (map fst (p_properties p))
          \<and> distinct (map fst (dollar_set_entries (ev_properties (event r')))) \<longrightarrow>
        (\<forall>k. obj_get
               (obj_assign (obj_assign [] (p_properties p))
                  (dollar_set_entries (ev_properties (event r')))) k =
              (if hasOwnProperty (dollar_set_entries (ev_properties (event r'))) k
               then obj_get (dollar_set_entries (ev_properties (event r'))) k
               else obj_get (p_properties p) k)))
     \<and> (\<forall>m. obj_get (ev_properties (event r')) ''$set'' = JObj m \<longrightarrow>
              dollar_set_entries (ev_properties (event r')) = m)
     \<and> (\<not> truthy (obj_get (ev_properties (event r')) ''$set'') \<longrightarrow>
              dollar_set_entries (ev_properties (event r')) = [])"
proof -
  obtain tm where tm: "team r = Some tm"
    using assms(2) createKafkaEvent_threw_without_team [of r h] by (cases "team r") auto
  obtain p where p: "person r = Some p"
    using assms(2) createKafkaEvent_threw_without_person [OF tm, of h] by (cases "person r") auto
  obtain props2 chain where e: "getElementsChain h (assembly_props1 tm r) = (props2, chain)"
    by (cases "getElementsChain h (assembly_props1 tm r)")
  have "createKafkaEvent h r =
      (Returned (assembled_record h tm p props2 chain r), set_properties props2 r)"
    using assms(1) by (simp add: createKafkaEvent_assembled [OF tm p e])
  with assms(2) have ke: "ke = assembled_record h tm p props2 chain r"
    and r': "r' = set_properties props2 r"
    by simp_all
  have props: "ev_properties (event r') = props2"
    by (simp add: r' set_properties_def)
  show ?thesis
    using assms(1) p
    by (auto simp: ke props assembled_record_def obj_get_spread dollar_set_entries_def)
qed

text \<open>A person with \<^verbatim>\<open>plan = free\<close> and an event that sets \<^verbatim>\<open>plan = pro\<close> and a city:
  the event's value wins.\<close>

theorem person_properties_merged_witness:
  "shouldProcessPerson (ex_assembled ex_env ex_with_set)
   \<and> person (ex_assembled ex_env ex_with_set) = Some ex_person
   \<and> p_properties ex_person = [(''plan'', JStr ''free'')]
   \<and> obj_get (ev_properties (event (ex_assembled ex_env ex_with_set))) ''$set'' =
        JObj [(''plan'', JStr ''pro''), (''city'', JStr ''Oslo'')]
   \<and> map_outcome person_properties (fst (createKafkaEvent ex_env (ex_assembled ex_env ex_with_set))) =
       Returned (JSON_stringify ex_env (JObj [(''plan'', JStr ''pro''), (''city'', JStr ''Oslo'')]))"
proof -
  let ?r = "ex_assembled ex_env ex_with_set"
  obtain ke r' where c: "createKafkaEvent ex_env ?r = (Returned ke, r')"
    and props: "ev_properties (event r') =
        [(''$set'', JObj [(''plan'', JStr ''pro''), (''city'', JStr ''Oslo'')])]"
  proof -
    have "map_outcome (\<lambda>ke. ()) (fst (createKafkaEvent ex_env ?r)) = Returned ()"
      by code_simp
    then have "\<exists>ke. fst (createKafkaEvent ex_env ?r) = Returned ke"
      by (cases "fst (createKafkaEvent ex_env ?r)") simp_all
    moreover have "ev_properties (event (snd (createKafkaEvent ex_env ?r))) =
        [(''$set'', JObj [(''plan'', JStr ''pro''), (''city'', JStr ''Oslo'')])]"
      by code_simp
    ultimately show ?thesis
      using that by (cases "createKafkaEvent ex_env ?r") auto
  qed
  have s: "shouldProcessPerson ?r" by code_simp
  have pers: "person ?r = Some ex_person" by code_simp
  have pp: "p_properties ex_person = [(''plan'', JStr ''free'')]" by (simp add: ex_person_def)
  have sv: "obj_get (ev_properties (event ?r)) ''$set'' =
        JObj [(''plan'', JStr ''pro''), (''city'', JStr ''Oslo'')]" by code_simp
  have m: "obj_assign (obj_assign [] [(''plan'', JStr ''free'')])
             (dollar_set_entries [(''$set'', JObj [(''plan'', JStr ''pro''), (''city'', JStr ''Oslo'')])]) =
           [(''plan'', JStr ''pro''), (''city'', JStr ''Oslo'')]"
    by code_simp
  from person_properties_merged [OF s c] pers
  have "person_properties ke =
         JSON_stringify ex_env (JObj
           (obj_assign (obj_assign [] (p_properties ex_person))
              (dollar_set_entries (ev_properties (event r')))))"
    by auto
  then have "person_properties ke =
      JSON_stringify ex_env (JObj [(''plan'', JStr ''pro''), (''city'', JStr ''Oslo'')])"
    by (simp only: props pp m)
  then show ?thesis
    using s pers pp sv c by simp
qed

subsection \<open>Producing the enriched record\<close>

text \<open>
  Claim C7, as stated, fails on the counted drop: nothing on this path calls
  \<^verbatim>\<open>dropEvent\<close>. A page view is assembled and produced to the main topic; when the
  producer rejects that request with \<^verbatim>\<open>MessageSizeTooLarge\<close>, the promise resolves after
  queueing the warning, and neither the run nor the callback has added a sample to the
  drop counter.
\<close>

theorem oversize_counterexample:
  "fst (run ex_env (new_runner ex_pageview)) = Returned ()
   \<and> dropped (snd (run ex_env (new_runner ex_pageview))) = []
   \<and> (case last (promises (snd (run ex_env (new_runner ex_pageview)))) of
         KafkaPromise req c \<Rightarrow>
           request_topic req = CLICKHOUSE_JSON_EVENTS_KAFKA_TOPIC
           \<and> settle ex_env c (Some MessageSizeTooLarge) =
               Resolved
                 [QueueMessages KAFKA_INGESTION_WARNINGS
                    [ex_JSON (JObj
                       [(''team_id'', JNum 1),
                        (''type'', JStr ''message_size_too_large''),
                        (''source'', JStr ''plugin-server''),
                        (''details'', JStr (ex_JSON (JObj
                           [(''eventUuid'', JStr ''u1''), (''distinctId'', JStr ''d1'')]))),
                        (''timestamp'', JStr ''now'')])]]
                 []
       | KafkaAck \<Rightarrow> False
       | SetTeamIngestedEvent t ps \<Rightarrow> False)"
  by code_simp

text \<open>
  Claim C7, amended. \<^verbatim>\<open>produceEventToKafka\<close> collects exactly one promise, a single
  \<^verbatim>\<open>produce\<close> of the serialised record to the main topic keyed by its uuid, and adds no
  sample to the drop counter. When the producer rejects that request with
  \<^verbatim>\<open>MessageSizeTooLarge\<close>, the promise resolves, having issued exactly one request and
  counted no drop: the request queues one message on the ingestion-warnings topic, the
  serialised record \<^verbatim>\<open>{team_id, type: "message_size_too_large", source: "plugin-server",
  details, timestamp}\<close> whose details are the serialised \<^verbatim>\<open>{eventUuid, distinctId}\<close>;
  nothing is produced again. Any other producer error rejects the promise with that same
  error, for the consumer to see; a delivered request resolves it with nothing more done.
  A run that assembles the record \<open>ke\<close> for an event not named \<^verbatim>\<open>$exception\<close> ends with
  this step, and has counted no drop at all.
\<close>

theorem oversize_handling:
  "promises (produceEventToKafka h ke r) =
     promises r @
       [KafkaPromise
          (Produce CLICKHOUSE_JSON_EVENTS_KAFKA_TOPIC (ke_uuid ke)
             (JSON_stringify h (JObj
                [(''uuid'', ke_uuid ke),
                 (''event'', JStr (ke_event ke)),
                 (''properties'', JStr (ke_properties ke)),
                 (''timestamp'', JStr (ke_timestamp ke)),
                 (''team_id'', JNum (ke_team_id ke)),
                 (''project_id'', JNum (ke_project_id ke)),
                 (''distinct_id'', JStr (ke_distinct_id ke)),
                 (''elements_chain'', JStr (elements_chain ke)),
                 (''created_at'', JStr (created_at ke)),
                 (''person_id'', JStr (person_id ke)),
                 (''person_properties'', JStr (person_properties ke)),
                 (''person_created_at'', JStr (person_created_at ke)),
                 (''person_mode'',
                    case person_mode ke of
                      full \<Rightarrow> JStr ''full''
                    | force_upgrade \<Rightarrow> JStr ''force_upgrade''
                    | propertyless \<Rightarrow> JStr ''propertyless'')])))
          (CatchMessageSizeTooLarge ke)]
   \<and> dropped (produceEventToKafka h ke r) = dropped r
   \<and> settle h (CatchMessageSizeTooLarge ke) (Some MessageSizeTooLarge) =
       Resolved
         [QueueMessages KAFKA_INGESTION_WARNINGS
            [JSON_stringify h (JObj
               [(''team_id'', JNum (ke_team_id ke)),
                (''type'', JStr ''message_size_too_large''),
                (''source'', JStr ''plugin-server''),
                (''details'', JStr (JSON_stringify h (JObj
                   [(''eventUuid'', ke_uuid ke), (''distinctId'', JStr (ke_distinct_id ke))]))),
                (''timestamp'', JStr (castTimestampOrNow h None ClickHouse))])]]
         []
   \<and> (e \<noteq> MessageSizeTooLarge \<longrightarrow>
        settle h (CatchMessageSizeTooLarge ke) (Some e) = Rejected e)
   \<and> settle h (CatchMessageSizeTooLarge ke) None = Resolved [] []
   \<and> (run_to_assembly h (new_runner oe) = (Returned (Some ke), r)
        \<and> ev_event (event r) \<noteq> ''$exception'' \<longrightarrow>
      run h (new_runner oe) = (Returned (), produceEventToKafka h ke r)
      \<and> dropped (snd (run h (new_runner oe))) = [])"
proof -
  have "run h (new_runner oe) = (Returned (), produceEventToKafka h ke r) \<and> dropped r = []"
    if a: "run_to_assembly h (new_runner oe) = (Returned (Some ke), r)"
      and n: "ev_event (event r) \<noteq> ''$exception''"
    using n run_to_assembly_dropped [OF a] by (simp add: run_assembled [OF a])
  then show ?thesis
    by (auto simp: produceEventToKafka_def settle_def shared_captureIngestionWarning_def
        warning_message_def RawKafkaEvent_js_def PersonMode_js_def)
qed

text \<open>The record assembled for a page view of team 1: an unavailable broker rejects
  the promise, an oversized message resolves it with the one warning. The run of that
  page view ends with the \<^verbatim>\<open>produce\<close> to the main topic and counts no drop.\<close>

theorem oversize_handling_witness:
  "OtherProducerError ''broker unavailable'' \<noteq> MessageSizeTooLarge
   \<and> settle ex_env (CatchMessageSizeTooLarge ex_record)
        (Some (OtherProducerError ''broker unavailable'')) =
       Rejected (OtherProducerError ''broker unavailable'')
   \<and> settle ex_env (CatchMessageSizeTooLarge ex_record) (Some MessageSizeTooLarge) =
       Resolved
         [QueueMessages KAFKA_INGESTION_WARNINGS
            [ex_JSON (JObj
               [(''team_id'', JNum 1),
                (''type'', JStr ''message_size_too_large''),
                (''source'', JStr ''plugin-server''),
                (''details'', JStr (ex_JSON (JObj
                   [(''eventUuid'', JStr ''u1''), (''distinctId'', JStr ''d1'')]))),
                (''timestamp'', JStr ''now'')])]]
         []
   \<and> fst (run_to_assembly ex_env (new_runner ex_pageview)) = Returned (Some ex_record)
   \<and> run ex_env (new_runner ex_pageview) =
       (Returned (),
        produceEventToKafka ex_env ex_record (snd (run_to_assembly ex_env (new_runner ex_pageview))))
   \<and> dropped (snd (run ex_env (new_runner ex_pageview))) = []"
proof -
  let ?a = "run_to_assembly ex_env (new_runner ex_pageview)"
  have e: "JSON_stringify ex_env = ex_JSON" "castTimestampOrNow ex_env None ClickHouse = ''now''"
    by (simp_all add: ex_env_def)
  have k: "ke_team_id ex_record = 1" "ke_uuid ex_record = JStr ''u1''"
    "ke_distinct_id ex_record = ''d1''"
    by (simp_all add: ex_record_def assembled_record_def new_runner_def ex_event_def ex_team_def
        ex_env_def)
  have f: "fst ?a = Returned (Some ex_record)"
    by code_simp
  then have a: "?a = (Returned (Some ex_record), snd ?a)"
    by (cases ?a) simp
  have n: "ev_event (event (snd ?a)) \<noteq> ''$exception''"
    by code_simp
  note t = oversize_handling [of ex_env ex_record "snd ?a"
      "OtherProducerError ''broker unavailable''" ex_pageview]
  from t a n have r: "run ex_env (new_runner ex_pageview) =
       (Returned (), produceEventToKafka ex_env ex_record (snd ?a))"
    "dropped (snd (run ex_env (new_runner ex_pageview))) = []"
    by blast+
  from t have s: "settle ex_env (CatchMessageSizeTooLarge ex_record)
        (Some (OtherProducerError ''broker unavailable'')) =
       Rejected (OtherProducerError ''broker unavailable'')"
    "settle ex_env (CatchMessageSizeTooLarge ex_record) (Some MessageSizeTooLarge) =
       Resolved
         [QueueMessages KAFKA_INGESTION_WARNINGS
            [ex_JSON (JObj
               [(''team_id'', JNum 1),
                (''type'', JStr ''message_size_too_large''),
                (''source'', JStr ''plugin-server''),
                (''details'', JStr (ex_JSON (JObj
                   [(''eventUuid'', JStr ''u1''), (''distinctId'', JStr ''d1'')]))),
                (''timestamp'', JStr ''now'')])]]
         []"
    by (simp_all add: e k del: ex_JSON.simps)
  show ?thesis
    using r s f by simp
qed

subsection \<open>The heatmap path\<close>

lemma warning_not_produce:
  "filter is_produce (promises (captureIngestionWarning h w d r)) = filter is_produce (promises r)"
  "list_all P (promises (captureIngestionWarning h w d r)) =
     (list_all P (promises r) \<and> P (last (promises (captureIngestionWarning h w d r))))"
  "\<exists>ms. last (promises (captureIngestionWarning h w d r)) =
     KafkaPromise (QueueMessages KAFKA_INGESTION_WARNINGS ms) CatchLogWarning"
  by (simp_all add: captureIngestionWarning_def)

text \<open>
  Claim C6. For an event named \<^verbatim>\<open>$$heatmap\<close> with a resolved team and a valid uuid, the
  run returns normally and is validation, normalisation and heatmap extraction, nothing
  else. Validation leaves the event's name and uuid as they were. The event the run
  leaves is the validated event after \<^verbatim>\<open>sanitizeEventName\<close>, the imported
  \<^verbatim>\<open>normalizeEvent\<close>, \<^verbatim>\<open>normalizeProcessPerson\<close> and \<^verbatim>\<open>parseEventTimestamp\<close> (whose result is
  the runner's timestamp) and after \<^verbatim>\<open>extractHeatmapData\<close>, with \<^verbatim>\<open>$heatmap_data\<close>
  deleted. No collaborator beyond the team lookup is called (no cookieless step, no
  transformation, no person or group processing), no person is resolved and no drop is
  counted. Its \<^verbatim>\<open>produce\<close> calls are exactly one per extracted heatmap sub-event, in
  order, each to the heatmaps topic, keyed by the uuid of that event and carrying the
  serialised sub-event; there is none when the team has opted out of heatmaps, when
  extraction throws or when it returns \<^verbatim>\<open>null\<close>. Every other promise is a queued
  ingestion warning, and nothing is produced to the main or the exceptions topic.
\<close>

theorem heatmap_fast_path:
  assumes "fst (getTeam h (new_runner oe)) = Some tm"
    and "pe_event oe = ''$$heatmap''"
    and "UUID_validateString h (pe_uuid oe)"
  shows
   "(let r4 = snd (validatePersonProcessing h (resolved h oe tm));
         ev2 = utils_normalizeEvent h
                 ((event r4)\<lparr>ev_event := sanitizeEventName h ''$$heatmap''\<rparr>);
         (ev4, ts) = parseEventTimestamp h
                       (ev2\<lparr>ev_properties := fst (person_keys h ev2 (shouldProcessPerson r4)),
                            ev_rest := snd (person_keys h ev2 (shouldProcessPerson r4))\<rparr>);
         ev5 = (if heatmaps_opt_in tm = Some False then ev4 else fst (extractHeatmapData h ev4));
         subEvents = (if heatmaps_opt_in tm = Some False then []
                      else case snd (extractHeatmapData h ev4) of
                             Some (Some l) \<Rightarrow> l | Some None \<Rightarrow> [] | None \<Rightarrow> []);
         final = snd (run h (new_runner oe))
     in fst (run h (new_runner oe)) = Returned ()
      \<and> ev_uuid (event r4) = pe_uuid oe
      \<and> event final = ev5\<lparr>ev_properties := obj_delete ''$heatmap_data'' (ev_properties ev5)\<rparr>
      \<and> timestamp final = Some ts
      \<and> calls final = calls (snd (getTeam h (new_runner oe)))
      \<and> person final = None
      \<and> dropped final = []
      \<and> transformDropped final = 0
      \<and> filter is_produce (promises final) =
          map (\<lambda>rawEvent.
                 KafkaPromise
                   (Produce CLICKHOUSE_HEATMAPS_KAFKA_TOPIC (ev_uuid ev5)
                      (JSON_stringify h (JObj rawEvent)))
                   NoCatch)
            subEvents
      \<and> list_all
           (\<lambda>p. is_produce p
              \<or> (\<exists>ms. p = KafkaPromise (QueueMessages KAFKA_INGESTION_WARNINGS ms) CatchLogWarning))
           (promises final)
      \<and> (\<forall>p \<in> set (promises final).
            \<not> produces_to CLICKHOUSE_JSON_EVENTS_KAFKA_TOPIC p
            \<and> \<not> produces_to EXCEPTIONS_SYMBOLIFICATION_KAFKA_TOPIC p))"
proof -
  let ?r3 = "resolved h oe tm"
  let ?r4 = "snd (validatePersonProcessing h ?r3)"
  let ?r' = "processHeatmaps h (normalizeEvent h ?r4)"
  let ?W = "\<lambda>p. is_produce p
              \<or> (\<exists>ms. p = KafkaPromise (QueueMessages KAFKA_INGESTION_WARNINGS ms) CatchLogWarning)"
  have t: "team ?r3 = Some tm"
    by (simp add: resolved_fields)
  have n: "ev_event (event ?r3) \<notin>
      set [''$identify'', ''$create_alias'', ''$merge_dangerously'', ''$groupidentify'']"
    by (simp add: resolved_fields assms(2))
  note v = validatePersonProcessing_passes [OF t n, of h]
  have u: "validateUuid h ?r3 = None"
    by (simp add: validateUuid_def resolved_fields assms(3))
  have name: "ev_event (event ?r4) = ''$$heatmap''"
    using v(9) by (simp add: resolved_fields assms(2))
  have uuid: "ev_uuid (event ?r4) = pe_uuid oe"
    using v(10) by (simp add: resolved_fields)
  have "run_to_assembly h (new_runner oe) = (Returned None, ?r')"
    using v(1) name
    by (cases "validatePersonProcessing h ?r3")
       (simp add: run_to_assembly_resolved [OF assms(1)] assms(2) u)
  then have run: "run h (new_runner oe) = (Returned (), ?r')"
    by (rule run_returned_early)
  have t4: "team ?r4 = Some tm"
    using v(4) t by simp
  have p4: "filter is_produce (promises ?r4) = []"
    using v(7) by (simp add: resolved_fields)
  have w4: "list_all ?W (promises ?r4)"
    using t
    by (simp add: validatePersonProcessing_def Let_def resolved_fields warning_not_produce
        split: option.splits)
  have side: "list_all side_promise (promises ?r')"
    by (simp add: processHeatmaps_fields normalizeEvent_fields v resolved_fields)
  have none: "\<forall>p \<in> set (promises ?r').
           \<not> produces_to CLICKHOUSE_JSON_EVENTS_KAFKA_TOPIC p
           \<and> \<not> produces_to EXCEPTIONS_SYMBOLIFICATION_KAFKA_TOPIC p"
    using side side_promise_not_enriched by (auto simp: list_all_iff)
  have frame: "calls ?r' = calls (snd (getTeam h (new_runner oe)))" "person ?r' = None"
    "dropped ?r' = []" "transformDropped ?r' = 0"
    by (simp_all add: processHeatmaps_fields normalizeEvent_fields v resolved_fields)
  let ?ev2 = "utils_normalizeEvent h
                ((event ?r4)\<lparr>ev_event := sanitizeEventName h ''$$heatmap''\<rparr>)"
  let ?ev3 = "?ev2\<lparr>ev_properties := fst (person_keys h ?ev2 (shouldProcessPerson ?r4)),
                    ev_rest := snd (person_keys h ?ev2 (shouldProcessPerson ?r4))\<rparr>"
  obtain ev4 ts where pt: "parseEventTimestamp h ?ev3 = (ev4, ts)"
    by (cases "parseEventTimestamp h ?ev3")
  have norm: "normalizeEvent h ?r4 = ?r4\<lparr>event := ev4, timestamp := Some ts\<rparr>"
    using pt by (simp add: normalizeEvent_def normalizeProcessPerson_def name)
  let ?ev5 = "if heatmaps_opt_in tm = Some False then ev4 else fst (extractHeatmapData h ev4)"
  let ?sub = "if heatmaps_opt_in tm = Some False then []
              else case snd (extractHeatmapData h ev4) of
                     Some (Some l) \<Rightarrow> l | Some None \<Rightarrow> [] | None \<Rightarrow> []"
  have ev: "event ?r' = ?ev5\<lparr>ev_properties := obj_delete ''$heatmap_data'' (ev_properties ?ev5)\<rparr>"
    and ti: "timestamp ?r' = Some ts"
    and pr: "filter is_produce (promises ?r') =
          map (\<lambda>rawEvent.
                 KafkaPromise
                   (Produce CLICKHOUSE_HEATMAPS_KAFKA_TOPIC (ev_uuid ?ev5)
                      (JSON_stringify h (JObj rawEvent)))
                   NoCatch)
            ?sub"
    and wa: "list_all ?W (promises ?r')"
    using t4 p4 w4
    by (auto simp: norm processHeatmaps_def Let_def set_properties_def captureIngestionWarning_def
        heatmap_promise_def filter_map comp_def list_all_iff
        split: if_splits option.splits prod.splits)
  show ?thesis
    using ev ti pr wa none frame uuid
    by (simp add: run Let_def pt)
qed

text \<open>Two sub-events are extracted and two heatmap records are produced, keyed
  \<^verbatim>\<open>u1\<close>; the event has been normalised, its timestamp parsed and \<^verbatim>\<open>$heatmap_data\<close>
  removed.\<close>

theorem heatmap_fast_path_witness:
  "fst (run ex_env_heatmap (new_runner ex_heatmap)) = Returned ()
   \<and> promises (snd (run ex_env_heatmap (new_runner ex_heatmap))) =
       [KafkaPromise
          (Produce CLICKHOUSE_HEATMAPS_KAFKA_TOPIC (JStr ''u1'')
             (ex_JSON (JObj [(''x'', JNum 1), (''y'', JNum 2)])))
          NoCatch,
        KafkaPromise
          (Produce CLICKHOUSE_HEATMAPS_KAFKA_TOPIC (JStr ''u1'')
             (ex_JSON (JObj [(''x'', JNum 3), (''y'', JNum 4)])))
          NoCatch]
   \<and> calls (snd (run ex_env_heatmap (new_runner ex_heatmap))) = [GetTeamByToken ''T1'']
   \<and> person (snd (run ex_env_heatmap (new_runner ex_heatmap))) = None
   \<and> timestamp (snd (run ex_env_heatmap (new_runner ex_heatmap))) = Some 42
   \<and> hasOwnProperty (ev_properties (event (new_runner ex_heatmap))) ''$heatmap_data''
   \<and> ev_properties (event (snd (run ex_env_heatmap (new_runner ex_heatmap)))) =
       [(''normalized'', JBool True)]"
proof -
  let ?r4 = "snd (validatePersonProcessing ex_env_heatmap
               (resolved ex_env_heatmap ex_heatmap ex_team))"
  let ?final = "snd (run ex_env_heatmap (new_runner ex_heatmap))"
  let ?ev4 = "(event ?r4)\<lparr>ev_properties :=
                obj_set ''normalized'' (JBool True) (ev_properties (event ?r4))\<rparr>"
  have g: "fst (getTeam ex_env_heatmap (new_runner ex_heatmap)) = Some ex_team"
    by code_simp
  have n: "pe_event ex_heatmap = ''$$heatmap''"
    by (simp add: ex_heatmap_def ex_event_def)
  have u: "UUID_validateString ex_env_heatmap (pe_uuid ex_heatmap)"
    by (simp add: ex_heatmap_def ex_event_def ex_env_heatmap_def ex_env_def)
  have name: "ev_event (event ?r4) = ''$$heatmap''"
    by code_simp
  let ?ev2 = "utils_normalizeEvent ex_env_heatmap
                ((event ?r4)\<lparr>ev_event := sanitizeEventName ex_env_heatmap ''$$heatmap''\<rparr>)"
  have pt: "parseEventTimestamp ex_env_heatmap
       (?ev2\<lparr>ev_properties := fst (person_keys ex_env_heatmap ?ev2 (shouldProcessPerson ?r4)),
              ev_rest := snd (person_keys ex_env_heatmap ?ev2 (shouldProcessPerson ?r4))\<rparr>)
       = (?ev4, 42)"
    using name
    by (simp add: ex_env_heatmap_def ex_env_def)
  have ex: "heatmaps_opt_in ex_team \<noteq> Some False"
    "extractHeatmapData ex_env_heatmap ?ev4 =
       (?ev4, Some (Some [[(''x'', JNum 1), (''y'', JNum 2)], [(''x'', JNum 3), (''y'', JNum 4)]]))"
  proof -
    have "ev_properties ?ev4 =
        [(''$heatmap_data'',
          JArr [JObj [(''x'', JNum 1), (''y'', JNum 2)], JObj [(''x'', JNum 3), (''y'', JNum 4)]]),
         (''normalized'', JBool True)]"
      by code_simp
    then show "extractHeatmapData ex_env_heatmap ?ev4 =
       (?ev4, Some (Some [[(''x'', JNum 1), (''y'', JNum 2)], [(''x'', JNum 3), (''y'', JNum 4)]]))"
      by (simp add: ex_env_heatmap_def ex_env_def obj_get_def)
    show "heatmaps_opt_in ex_team \<noteq> Some False"
      by (simp add: ex_team_def)
  qed
  have p4: "promises ?r4 = []"
    by code_simp
  from heatmap_fast_path [OF g n u]
  have f: "fst (run ex_env_heatmap (new_runner ex_heatmap)) = Returned ()"
    and pr: "filter is_produce (promises ?final) =
       [KafkaPromise
          (Produce CLICKHOUSE_HEATMAPS_KAFKA_TOPIC (ev_uuid ?ev4)
             (JSON_stringify ex_env_heatmap (JObj [(''x'', JNum 1), (''y'', JNum 2)])))
          NoCatch,
        KafkaPromise
          (Produce CLICKHOUSE_HEATMAPS_KAFKA_TOPIC (ev_uuid ?ev4)
             (JSON_stringify ex_env_heatmap (JObj [(''x'', JNum 3), (''y'', JNum 4)])))
          NoCatch]"
    and ti: "timestamp ?final = Some 42"
    and ca: "calls ?final = calls (snd (getTeam ex_env_heatmap (new_runner ex_heatmap)))"
    and pe: "person ?final = None"
    and ev: "event ?final = ?ev4\<lparr>ev_properties := obj_delete ''$heatmap_data'' (ev_properties ?ev4)\<rparr>"
    unfolding Let_def pt prod.case by (simp_all add: ex)
  have all: "promises ?final = filter is_produce (promises ?final)"
    by code_simp
  have "ev_uuid ?ev4 = JStr ''u1''"
    by code_simp
  moreover have "JSON_stringify ex_env_heatmap = ex_JSON"
    by (simp add: ex_env_heatmap_def ex_env_def)
  moreover have "calls (snd (getTeam ex_env_heatmap (new_runner ex_heatmap))) = [GetTeamByToken ''T1'']"
    by code_simp
  moreover have "hasOwnProperty (ev_properties (event (new_runner ex_heatmap))) ''$heatmap_data''"
    by code_simp
  moreover have "obj_delete ''$heatmap_data'' (ev_properties ?ev4) = [(''normalized'', JBool True)]"
    by code_simp
  ultimately show ?thesis
    using f pr ti ca pe ev all by simp
qed

subsection \<open>Routing of the enriched record\<close>

lemma processGroups_promises:
  "processGroups h x = (a, b) \<Longrightarrow> promises b = promises x"
  using processGroups_fields(1) [of h x] by simp

lemma createKafkaEvent_promises:
  "createKafkaEvent h x = (a, b) \<Longrightarrow> promises b = promises x"
  using createKafkaEvent_fields [of h x] by simp

lemma getTeam_promises: "promises (snd (getTeam h r)) = promises r"
  by (simp add: getTeam_def split: option.splits)

lemma validatePersonProcessing_side:
  "list_all side_promise (promises (snd (validatePersonProcessing h r))) =
     list_all side_promise (promises r)"
  by (simp add: validatePersonProcessing_def Let_def captureIngestionWarning_fields
      split: option.splits)

lemma run_enrich_side_promises:
  assumes "list_all side_promise (promises r)"
  shows "list_all side_promise (promises (snd (run_enrich h r)))"
  using assms
  unfolding run_enrich_def Let_def
  by (auto simp: processGroups_promises createKafkaEvent_promises processHeatmaps_fields
      trackFirstEventIngestion_fields processPerson_fields normalizeEvent_fields
      processAiEvent_fields
      split: prod.splits option.splits outcome.splits)

lemma run_to_assembly_side_promises:
  "list_all side_promise (promises (snd (run_to_assembly h (new_runner oe))))"
proof (cases "fst (getTeam h (new_runner oe))")
  case None
  then obtain r1 where g: "getTeam h (new_runner oe) = (None, r1)"
    by (cases "getTeam h (new_runner oe)") simp
  have "promises r1 = []"
    using getTeam_promises [of h "new_runner oe"] g by (simp add: new_runner_fields)
  then show ?thesis
    by (simp add: run_to_assembly_def g dropEvent_def)
next
  case (Some tm)
  let ?r3 = "resolved h oe tm"
  have p3: "list_all side_promise (promises ?r3)"
    by (simp add: resolved_fields)
  show ?thesis
  proof (cases "pe_event oe = ''$$client_ingestion_warning''")
    case True
    then show ?thesis
      by (simp add: run_to_assembly_resolved [OF Some] captureIngestionWarning_fields p3)
  next
    case False
    show ?thesis
    proof (cases "validateUuid h ?r3")
      case (Some e)
      then show ?thesis
        using False \<open>fst (getTeam h (new_runner oe)) = Some tm\<close>
        by (simp add: run_to_assembly_resolved p3)
    next
      case None
      obtain o4 r4 where v: "validatePersonProcessing h ?r3 = (o4, r4)"
        by (cases "validatePersonProcessing h ?r3")
      have p4: "list_all side_promise (promises r4)"
        using validatePersonProcessing_side [of h ?r3] v p3 by simp
      show ?thesis
        using False None v p4 \<open>fst (getTeam h (new_runner oe)) = Some tm\<close>
        by (cases o4)
           (simp_all add: run_to_assembly_resolved processHeatmaps_fields normalizeEvent_fields
              run_enrich_side_promises)
    qed
  qed
qed

lemma createKafkaEvent_uuid:
  "createKafkaEvent h x = (Returned ke, b) \<Longrightarrow> ke_uuid ke = ev_uuid (event b)"
  by (auto simp: createKafkaEvent_def Let_def set_properties_def
      split: prod.splits option.splits if_splits)

lemma run_enrich_uuid:
  "run_enrich h r = (Returned (Some ke), r') \<Longrightarrow> ke_uuid ke = ev_uuid (event r')"
  unfolding run_enrich_def Let_def
  by (auto simp: createKafkaEvent_uuid split: prod.splits option.splits outcome.splits)

lemma run_to_assembly_uuid:
  assumes "run_to_assembly h (new_runner oe) = (Returned (Some ke), r)"
  shows "ke_uuid ke = ev_uuid (event r)"
proof (cases "fst (getTeam h (new_runner oe))")
  case None
  then obtain r1 where g: "getTeam h (new_runner oe) = (None, r1)"
    by (cases "getTeam h (new_runner oe)") simp
  with assms show ?thesis
    by (simp add: run_to_assembly_def)
next
  case (Some tm)
  obtain o4 r4 where v: "validatePersonProcessing h (resolved h oe tm) = (o4, r4)"
    by (cases "validatePersonProcessing h (resolved h oe tm)")
  from assms have "run_enrich h r4 = (Returned (Some ke), r)"
    by (cases o4)
       (auto simp: run_to_assembly_resolved [OF Some] v split: if_splits option.splits)
  then show ?thesis
    by (rule run_enrich_uuid)
qed

text \<open>
  Routing in general. Suppose the run assembles an enriched record \<open>ke\<close>, leaving the
  runner \<open>r\<close>. If the event is then named \<^verbatim>\<open>$exception\<close> and its property bag has an own
  property \<^verbatim>\<open>hasOwnProperty\<close>, the routing test throws and nothing is produced. Otherwise,
  if the event is named \<^verbatim>\<open>$exception\<close> and has no own key \<^verbatim>\<open>$sentry_event_id\<close>, the run
  ends by producing the record to the exceptions symbolification topic, keyed by the
  event's uuid; in every other case it ends by producing it to the main topic, keyed
  likewise. None of the promises collected before goes to the main or the exceptions
  topic.
\<close>

lemma routing_after_assembly:
  assumes "run_to_assembly h (new_runner oe) = (Returned (Some ke), r)"
  shows "run h (new_runner oe) =
           (if ev_event (event r) = ''$exception''
               \<and> hasOwnProperty (ev_properties (event r)) ''hasOwnProperty''
            then (Threw TypeError, r)
            else
              (Returned (),
               r\<lparr>promises := promises r @
                  [if ev_event (event r) = ''$exception''
                      \<and> \<not> hasOwnProperty (ev_properties (event r)) ''$sentry_event_id''
                   then KafkaPromise
                          (Produce EXCEPTIONS_SYMBOLIFICATION_KAFKA_TOPIC (ev_uuid (event r))
                             (JSON_stringify h (RawKafkaEvent_js ke)))
                          CatchLogRethrow
                   else KafkaPromise
                          (Produce CLICKHOUSE_JSON_EVENTS_KAFKA_TOPIC (ev_uuid (event r))
                             (JSON_stringify h (RawKafkaEvent_js ke)))
                          (CatchMessageSizeTooLarge ke)]\<rparr>))
     \<and> (\<forall>p \<in> set (promises r).
           \<not> produces_to CLICKHOUSE_JSON_EVENTS_KAFKA_TOPIC p
           \<and> \<not> produces_to EXCEPTIONS_SYMBOLIFICATION_KAFKA_TOPIC p)"
proof -
  have "list_all side_promise (promises r)"
    using run_to_assembly_side_promises [of h oe] assms by simp
  then have "\<forall>p \<in> set (promises r).
           \<not> produces_to CLICKHOUSE_JSON_EVENTS_KAFKA_TOPIC p
           \<and> \<not> produces_to EXCEPTIONS_SYMBOLIFICATION_KAFKA_TOPIC p"
    using side_promise_not_enriched by (auto simp: list_all_iff)
  then show ?thesis
    using run_to_assembly_uuid [OF assms]
    by (simp add: run_assembled [OF assms] produceExceptionSymbolificationEventStep_def
        produceEventToKafka_def)
qed

text \<open>
  Claim C8 is what the routing test at the end of \<^verbatim>\<open>_run\<close> is written to do, and the
  code does it for an ordinary \<^verbatim>\<open>$exception\<close> event: the assembled record goes to the
  exceptions topic and nothing to the main topic, and with \<^verbatim>\<open>$sentry_event_id\<close> present
  it goes to the main topic instead. It fails for an \<^verbatim>\<open>$exception\<close> event without
  \<^verbatim>\<open>$sentry_event_id\<close> that carries a property named \<^verbatim>\<open>hasOwnProperty\<close>: the record is
  assembled, then the test calls that property as a method, the run throws a
  \<^verbatim>\<open>TypeError\<close>, and no record is produced to any topic.
\<close>

theorem exception_routing_type_error:
  "pe_event ex_shadowing_exception = ''$exception''
   \<and> hasOwnProperty (ev_properties (event (new_runner ex_shadowing_exception))) ''$sentry_event_id''
       = False
   \<and> map_outcome (map_option (\<lambda>ke. ()))
        (fst (run_to_assembly ex_env (new_runner ex_shadowing_exception))) = Returned (Some ())
   \<and> fst (run ex_env (new_runner ex_shadowing_exception)) = Threw TypeError
   \<and> filter is_produce (promises (snd (run ex_env (new_runner ex_shadowing_exception)))) = []
   \<and> fst (run ex_env (new_runner ex_exception)) = Returned ()
   \<and> length (filter (produces_to EXCEPTIONS_SYMBOLIFICATION_KAFKA_TOPIC)
        (promises (snd (run ex_env (new_runner ex_exception))))) = 1
   \<and> filter (produces_to CLICKHOUSE_JSON_EVENTS_KAFKA_TOPIC)
        (promises (snd (run ex_env (new_runner ex_exception)))) = []
   \<and> fst (run ex_env (new_runner ex_sentry_exception)) = Returned ()
   \<and> length (filter (produces_to CLICKHOUSE_JSON_EVENTS_KAFKA_TOPIC)
        (promises (snd (run ex_env (new_runner ex_sentry_exception))))) = 1
   \<and> filter (produces_to EXCEPTIONS_SYMBOLIFICATION_KAFKA_TOPIC)
        (promises (snd (run ex_env (new_runner ex_sentry_exception)))) = []"
  by code_simp


end
